theory Spec2Isabelle
  imports Complex_Main "HOL-Library.Sublist" "HOL-Library.Char_ord" "HOL-Library.List_Lexorder"
begin

section \<open>JavaScript values of \<^verbatim>\<open>suiLiquidityPool.js\<close>\<close>

subsection \<open>Numbers\<close>

text \<open>
  A JavaScript number is an IEEE-754 binary64 value. \<open>Num x\<close> is the finite double whose
  exact value is the rational \<open>x\<close>; \<open>NaN\<close> is not-a-number. The two zeros are identified
  and the infinities are left out: \<open>to_double\<close> rounds a rational to the nearest value
  with a 53-bit significand (ties to even, subnormals below \<open>2^-1022\<close>), without an upper
  limit on the exponent, so it agrees with the machine for magnitudes below \<open>2^1024\<close>.
\<close>

datatype js_number = NaN | Num rat

function bit_length :: "int \<Rightarrow> nat" where
  "bit_length n = (if n \<le> 0 then 0 else Suc (bit_length (n div 2)))"
  by pat_completeness auto
termination
  by (relation "measure nat") auto

declare bit_length.simps [simp del]

definition pow2 :: "int \<Rightarrow> rat" where
  "pow2 e = (if 0 \<le> e then 2 ^ nat e else 1 / 2 ^ nat (- e))"

text \<open>For \<open>x > 0\<close>, \<open>ilog2 x\<close> is the exponent \<open>e\<close> with \<open>2^e \<le> x < 2^(e+1)\<close>.\<close>

definition ilog2 :: "rat \<Rightarrow> int" where
  "ilog2 x = (case quotient_of x of (n, d) \<Rightarrow>
     (let e = int (bit_length n) - int (bit_length d)
      in if pow2 e \<le> x then e else e - 1))"

definition round_half_even :: "rat \<Rightarrow> int" where
  "round_half_even m = (let f = \<lfloor>m\<rfloor>; r = m - of_int f in
     if r < 1 / 2 then f else if 1 / 2 < r then f + 1 else if even f then f else f + 1)"

definition to_double :: "rat \<Rightarrow> rat" where
  "to_double x = (if x = 0 then 0 else
     (let u = pow2 (max (ilog2 \<bar>x\<bar> - 52) (- 1074))
      in of_int (round_half_even (x / u)) * u))"

text \<open>The operators the module applies to numbers: \<^verbatim>\<open>*\<close>, \<^verbatim>\<open>-\<close> and \<^verbatim>\<open>Math.floor\<close>.\<close>

fun js_mul :: "js_number \<Rightarrow> js_number \<Rightarrow> js_number" where
  "js_mul (Num a) (Num b) = Num (to_double (a * b))"
| "js_mul _ _ = NaN"

fun js_sub :: "js_number \<Rightarrow> js_number \<Rightarrow> js_number" where
  "js_sub (Num a) (Num b) = Num (to_double (a - b))"
| "js_sub _ _ = NaN"

fun Math_floor :: "js_number \<Rightarrow> js_number" where
  "Math_floor (Num a) = Num (of_int \<lfloor>a\<rfloor>)"
| "Math_floor NaN = NaN"

text \<open>
  A value handed to \<^verbatim>\<open>txb.pure\<close>. Reading a property that an object does not have gives
  \<open>JUndefined\<close>.
\<close>

datatype js_value = JUndefined | JString string | JNumber js_number

subsection \<open>Strings\<close>

text \<open>
  Strings are byte strings; the identifiers, type names and decimal fields the module
  handles are ASCII. \<open>includes_str s t\<close> is \<^verbatim>\<open>s.includes(t)\<close>.
\<close>

fun includes_str :: "string \<Rightarrow> string \<Rightarrow> bool" where
  "includes_str [] t = (t = [])"
| "includes_str (c # s) t = (prefix t (c # s) \<or> includes_str s t)"

definition is_space :: "char \<Rightarrow> bool" where
  "is_space c = (c \<in> set [CHR '' '', CHR 0x09, CHR 0x0A, CHR 0x0B, CHR 0x0C, CHR 0x0D])"

subsection \<open>Errors\<close>

text \<open>
  Every error of the module is \<^verbatim>\<open>new Error(message)\<close>, and the handlers read nothing
  but \<^verbatim>\<open>error.message\<close>. A call that throws (an \<^verbatim>\<open>async\<close> function whose promise
  rejects) has the outcome \<open>Inl e\<close>; a call that returns \<open>v\<close> has the outcome \<open>Inr v\<close>.
  A value thrown by a collaborator is taken to be an \<^verbatim>\<open>Error\<close> object too. A
  collaborator that rejects with \<^verbatim>\<open>null\<close> or \<^verbatim>\<open>undefined\<close>, for which the read of
  \<^verbatim>\<open>error.message\<close> in a handler throws in its turn, is outside the model.
\<close>

datatype error = Error (message: string)

section \<open>Constants\<close>

definition DEX_PACKAGE_ID :: string where
  "DEX_PACKAGE_ID = ''0x123456789abcdef123456789abcdef123456789abcdef123456789abcdef1234''"

definition MODULE_NAME :: string where
  "MODULE_NAME = ''liquidity_pool''"

definition LP_REGISTRY_ID :: string where
  "LP_REGISTRY_ID = ''0xabcdef123456789abcdef123456789abcdef123456789abcdef123456789abcd''"

record fee_tier =
  fee :: js_number
  tickSpacing :: js_number

text \<open>
  The literals \<^verbatim>\<open>0.0005\<close>, \<^verbatim>\<open>0.003\<close> and \<^verbatim>\<open>0.01\<close> denote the doubles nearest to
  the decimal fractions.
\<close>

definition FEE_TIERS :: "(string \<times> fee_tier) list" where
  "FEE_TIERS =
     [(''LOW'', \<lparr>fee = Num (to_double (5 / 10000)), tickSpacing = Num 10\<rparr>),
      (''MEDIUM'', \<lparr>fee = Num (to_double (3 / 1000)), tickSpacing = Num 60\<rparr>),
      (''HIGH'', \<lparr>fee = Num (to_double (1 / 100)), tickSpacing = Num 200\<rparr>)]"

text \<open>
  \<^verbatim>\<open>FEE_TIERS\<close> is an object literal, so \<^verbatim>\<open>FEE_TIERS[feeTier]\<close> is a property read
  that follows the prototype chain: a name that is not an own key but is a property of
  \<^verbatim>\<open>Object.prototype\<close> yields that inherited value (a function, or the prototype
  itself for \<^verbatim>\<open>__proto__\<close>), which is truthy and has neither a \<^verbatim>\<open>fee\<close> nor a
  \<^verbatim>\<open>tickSpacing\<close> property. Any other name yields \<^verbatim>\<open>undefined\<close>.
\<close>

definition Object_prototype :: "string list" where
  "Object_prototype =
     [''constructor'', ''__defineGetter__'', ''__defineSetter__'', ''hasOwnProperty'',
      ''__lookupGetter__'', ''__lookupSetter__'', ''isPrototypeOf'',
      ''propertyIsEnumerable'', ''toString'', ''valueOf'', ''__proto__'',
      ''toLocaleString'']"

datatype tier_lookup = Undefined | Own fee_tier | Inherited string

definition FEE_TIERS_get :: "string \<Rightarrow> tier_lookup" where
  "FEE_TIERS_get name =
     (case map_of FEE_TIERS name of
        Some t \<Rightarrow> Own t
      | None \<Rightarrow> if name \<in> set Object_prototype then Inherited name else Undefined)"

text \<open>
  \<^verbatim>\<open>tier.fee * 1000000\<close> and \<^verbatim>\<open>tier.tickSpacing\<close>. An inherited value has neither
  property: its \<^verbatim>\<open>fee\<close> is \<^verbatim>\<open>undefined\<close>, and \<^verbatim>\<open>undefined * 1000000\<close> is \<^verbatim>\<open>NaN\<close>.
  \<^verbatim>\<open>createPool\<close> throws before it reads a property of a tier that is \<^verbatim>\<open>undefined\<close>.
\<close>

fun tier_fee_ppm :: "tier_lookup \<Rightarrow> js_number" where
  "tier_fee_ppm (Own t) = js_mul (fee t) (Num 1000000)"
| "tier_fee_ppm _ = NaN"

fun tier_tickSpacing :: "tier_lookup \<Rightarrow> js_value" where
  "tier_tickSpacing (Own t) = JNumber (tickSpacing t)"
| "tier_tickSpacing _ = JUndefined"

section \<open>The constructor\<close>

text \<open>
  The connection a \<^verbatim>\<open>JsonRpcProvider\<close> is built over: one of the three connections
  the SDK exports, or the caller's \<^verbatim>\<open>rpcEndpoint\<close>.
\<close>

datatype connection = devnetConnection | testnetConnection | mainnetConnection | Endpoint string

text \<open>
  The configuration object. An absent property is \<open>None\<close>. The fields \<open>cfg_packageId\<close>,
  \<open>cfg_lpRegistryId\<close> and \<open>cfg_moduleName\<close> are the properties \<^verbatim>\<open>packageId\<close>,
  \<^verbatim>\<open>lpRegistryId\<close> and \<^verbatim>\<open>moduleName\<close>. \<open>cacheTtlSeconds\<close> and \<open>cacheMaxEntries\<close>
  are options a caller may pass; the constructor reads neither.
\<close>

record config =
  network :: "string option"
  rpcEndpoint :: "string option"
  cfg_packageId :: "string option"
  cfg_lpRegistryId :: "string option"
  cfg_moduleName :: "string option"
  cacheTtlSeconds :: "nat option"
  cacheMaxEntries :: "nat option"

text \<open>\<^verbatim>\<open>x || d\<close> on an optional string: \<^verbatim>\<open>undefined\<close> and the empty string are falsy.\<close>

fun or_default :: "string option \<Rightarrow> string \<Rightarrow> string" where
  "or_default None d = d"
| "or_default (Some s) d = (if s = [] then d else s)"

section \<open>Pool details\<close>

text \<open>
  What \<^verbatim>\<open>provider.getObject\<close> answers for a pool id: the response, its \<^verbatim>\<open>data\<close> and
  the \<^verbatim>\<open>content\<close> of the data may each be missing. The fields of the content are the
  raw scalars of the pool, as text.
\<close>

record pool_fields =
  sqrt_price_x96 :: string
  liquidity_field :: string
  fee_field :: string
  tick_spacing :: string
  current_tick :: string

record object_data =
  object_type :: string
  content :: "pool_fields option"

record object_response =
  data :: "object_data option"

text \<open>
  The object \<^verbatim>\<open>getPoolDetails\<close> builds and caches. \<open>'m\<close> is what \<^verbatim>\<open>getTokenMetadata\<close>
  returns and \<open>'v\<close> what \<^verbatim>\<open>calculatePoolTVL\<close> returns. \<open>details_id\<close>, \<open>details_fee\<close>
  and \<open>details_tickSpacing\<close> are the properties \<^verbatim>\<open>id\<close>, \<^verbatim>\<open>fee\<close> and \<^verbatim>\<open>tickSpacing\<close>.
\<close>

record ('m, 'v) pool_details =
  details_id :: string
  tokenX :: string
  tokenY :: string
  tokenXMetadata :: 'm
  tokenYMetadata :: 'm
  sqrtPriceX96 :: string
  price :: string
  liquidity :: string
  details_fee :: js_number
  details_tickSpacing :: js_number
  currentTick :: js_number
  tvl :: 'v

text \<open>The object \<^verbatim>\<open>this\<close>: the fields the constructor sets.\<close>

record ('m, 'v) SuiLiquidityPool =
  provider :: connection
  packageId :: string
  lpRegistryId :: string
  moduleName :: string
  poolCache :: "string \<rightharpoonup> ('m, 'v) pool_details"

definition constructor :: "config \<Rightarrow> ('m, 'v) SuiLiquidityPool" where
  "constructor config =
     (let net = or_default (network config) ''mainnet''
      in \<lparr>provider =
            (if net = ''devnet'' then devnetConnection
             else if net = ''testnet'' then testnetConnection
             else (case rpcEndpoint config of
                     None \<Rightarrow> mainnetConnection
                   | Some url \<Rightarrow> if url = [] then mainnetConnection else Endpoint url)),
          packageId = or_default (cfg_packageId config) DEX_PACKAGE_ID,
          lpRegistryId = or_default (cfg_lpRegistryId config) LP_REGISTRY_ID,
          moduleName = or_default (cfg_moduleName config) MODULE_NAME,
          poolCache = Map.empty\<rparr>)"

section \<open>Collaborators\<close>

record coin =
  coinObjectId :: string

record get_coins_args =
  owner :: string
  coinType :: "string option"
  limit :: "nat option"

datatype tx_arg = Object string | Pure js_value

record move_call =
  target :: string
  arguments :: "tx_arg list"
  typeArguments :: "string list"

text \<open>
  The transaction block \<^verbatim>\<open>createPool\<close> hands to the signer: one move call and the gas
  payment. The options \<^verbatim>\<open>showEffects\<close> and \<^verbatim>\<open>showEvents\<close> are constant and left out.
\<close>

record transaction_block =
  moveCall :: move_call
  gasPayment :: "string list"

record event =
  event_type :: string
  pool_id :: string

text \<open>
  The response to a submitted transaction: \<open>status\<close> is \<^verbatim>\<open>effects.status.status\<close> and
  \<open>status_error\<close> is \<^verbatim>\<open>effects.status.error\<close>; \<open>pool_id\<close> of an event is
  \<^verbatim>\<open>parsedJson.pool_id\<close>.
\<close>

record tx_result =
  digest :: string
  status :: string
  status_error :: "string option"
  events :: "event list"

record signer =
  getAddress :: string
  signAndExecuteTransactionBlock :: "transaction_block \<Rightarrow> error + tx_result"

text \<open>
  The environment of an instance. \<open>getObject\<close> and \<open>getCoins\<close> are the calls on the
  provider, answered by the network the provider is connected to. The other five are
  methods of the class that \<^verbatim>\<open>createPool\<close> and \<^verbatim>\<open>getPoolDetails\<close> call and whose text
  is not part of the source file, which ends inside \<^verbatim>\<open>addLiquidity\<close>; they are
  parameters here, taken as functions of their arguments that leave \<^verbatim>\<open>poolCache\<close>
  alone. Of the result of \<^verbatim>\<open>priceToSqrtPriceX96\<close> and of \<^verbatim>\<open>sqrtPriceX96ToPrice\<close> the
  callers use only \<^verbatim>\<open>toString()\<close>, so these two return that text.
\<close>

record ('m, 'v) env =
  getObject :: "connection \<Rightarrow> string \<Rightarrow> error + object_response option"
  getCoins :: "connection \<Rightarrow> get_coins_args \<Rightarrow> error + coin list"
  sortTokens :: "string \<Rightarrow> string \<Rightarrow> error + string \<times> string"
  priceToSqrtPriceX96 :: "string \<Rightarrow> error + string"
  sqrtPriceX96ToPrice :: "string \<Rightarrow> error + string"
  getTokenMetadata :: "string \<Rightarrow> error + 'm"
  calculatePoolTVL ::
    "string \<Rightarrow> string \<Rightarrow> string \<Rightarrow> string \<Rightarrow> string \<Rightarrow> js_number \<Rightarrow> error + 'v"

section \<open>getPoolDetails\<close>

subsection \<open>\<^verbatim>\<open>poolType.match(/<([^,]+),\s*([^>]+)>/)\<close>\<close>

text \<open>
  \<open>match_after_lt s\<close> matches the rest of the pattern on the text \<open>s\<close> that follows a
  \<^verbatim>\<open><\<close>. The first group cannot hold a comma and must be followed by one, so it is
  the text up to the first comma and must not be empty. The second group cannot hold a
  \<^verbatim>\<open>>\<close> and must be followed by one, so it ends at the first \<^verbatim>\<open>>\<close> after the comma;
  it starts after the white space that follows the comma, unless nothing else stands
  before the \<^verbatim>\<open>>\<close>: then the matcher backtracks and the group is the last white-space
  character. \<open>match_pool_type\<close> tries every \<^verbatim>\<open><\<close> from the left and gives the two
  groups of the first match.
\<close>

definition match_after_lt :: "string \<Rightarrow> (string \<times> string) option" where
  "match_after_lt s =
     (let g1 = takeWhile (\<lambda>c. c \<noteq> CHR '','') s;
          r1 = dropWhile (\<lambda>c. c \<noteq> CHR '','') s
      in case r1 of
           [] \<Rightarrow> None
         | _ # r2 \<Rightarrow>
             if g1 = [] then None
             else
               (let ws = takeWhile is_space r2;
                    r3 = dropWhile is_space r2;
                    g2 = takeWhile (\<lambda>c. c \<noteq> CHR ''>'') r3;
                    r4 = dropWhile (\<lambda>c. c \<noteq> CHR ''>'') r3
                in if r4 = [] then None
                   else if g2 \<noteq> [] then Some (g1, g2)
                   else if ws \<noteq> [] then Some (g1, [last ws])
                   else None))"

fun match_pool_type :: "string \<Rightarrow> (string \<times> string) option" where
  "match_pool_type [] = None"
| "match_pool_type (c # s) =
     (if c = CHR ''<'' then
        (case match_after_lt s of Some g \<Rightarrow> Some g | None \<Rightarrow> match_pool_type s)
      else match_pool_type s)"

subsection \<open>\<^verbatim>\<open>parseInt\<close>\<close>

text \<open>
  \<^verbatim>\<open>parseInt(text)\<close> with no radix: leading white space is skipped, a sign is read, the
  prefix \<^verbatim>\<open>0x\<close> selects radix 16, and the longest run of digits is the value; no digit
  gives \<^verbatim>\<open>NaN\<close>. The result is the double nearest to the integer read.
\<close>

definition digit_of :: "nat \<Rightarrow> char \<Rightarrow> nat option" where
  "digit_of radix c =
     (let n = (of_char c :: nat);
          v = (if 48 \<le> n \<and> n \<le> 57 then Some (n - 48)
               else if 97 \<le> n \<and> n \<le> 122 then Some (n - 87)
               else if 65 \<le> n \<and> n \<le> 90 then Some (n - 55)
               else None)
      in case v of None \<Rightarrow> None | Some d \<Rightarrow> if d < radix then Some d else None)"

fun leading_digits :: "nat \<Rightarrow> string \<Rightarrow> nat list" where
  "leading_digits radix [] = []"
| "leading_digits radix (c # s) =
     (case digit_of radix c of None \<Rightarrow> [] | Some d \<Rightarrow> d # leading_digits radix s)"

definition parseInt :: "string \<Rightarrow> js_number" where
  "parseInt text =
     (let s = dropWhile is_space text;
          negative = prefix ''-'' s;
          s1 = (if prefix ''-'' s \<or> prefix ''+'' s then drop 1 s else s);
          hex = (prefix ''0x'' s1 \<or> prefix ''0X'' s1);
          radix = (if hex then 16 else 10);
          ds = leading_digits radix (if hex then drop 2 s1 else s1);
          n = int (foldl (\<lambda>a d. a * radix + d) 0 ds)
      in if ds = [] then NaN
         else Num (to_double (of_int (if negative then - n else n))))"

text \<open>\<^verbatim>\<open>parseInt(pool.fee) / 1000000\<close>.\<close>

fun div_1000000 :: "js_number \<Rightarrow> js_number" where
  "div_1000000 (Num a) = Num (to_double (a / 1000000))"
| "div_1000000 NaN = NaN"

subsection \<open>The function\<close>

text \<open>
  \<open>getPoolDetails_fetch\<close> is the part of the \<^verbatim>\<open>try\<close> block after the cache check: the
  fetch of the pool object and the construction of \<^verbatim>\<open>poolDetails\<close>. The pool is not
  found when the response, its \<^verbatim>\<open>data\<close> or the \<^verbatim>\<open>content\<close> of the data is missing; a
  content that is there is taken to have its \<^verbatim>\<open>fields\<close>, and the data its \<^verbatim>\<open>type\<close>. The
  two metadata requests run under \<^verbatim>\<open>Promise.all\<close>; when both fail the model reports the
  failure for token X.
\<close>

definition getPoolDetails_fetch ::
  "('m, 'v) env \<Rightarrow> ('m, 'v) SuiLiquidityPool \<Rightarrow> string \<Rightarrow> error + ('m, 'v) pool_details"
where
  "getPoolDetails_fetch env this poolId =
     (case getObject env (provider this) poolId of
        Inl e \<Rightarrow> Inl e
      | Inr poolObject \<Rightarrow>
     (case Option.bind (Option.bind poolObject data) (\<lambda>d. map_option (Pair d) (content d)) of
        None \<Rightarrow> Inl (Error (''Pool with ID '' @ poolId @ '' not found''))
      | Some (d, pool) \<Rightarrow>
     (case match_pool_type (object_type d) of
        None \<Rightarrow> Inl (Error (''Invalid pool type format: '' @ object_type d))
      | Some (tx, ty) \<Rightarrow>
     (case sqrtPriceX96ToPrice env (sqrt_price_x96 pool) of
        Inl e \<Rightarrow> Inl e
      | Inr p \<Rightarrow>
     (case getTokenMetadata env tx of
        Inl e \<Rightarrow> Inl e
      | Inr mx \<Rightarrow>
     (case getTokenMetadata env ty of
        Inl e \<Rightarrow> Inl e
      | Inr my \<Rightarrow>
     (case calculatePoolTVL env poolId tx ty (liquidity_field pool)
             (sqrt_price_x96 pool) (parseInt (current_tick pool)) of
        Inl e \<Rightarrow> Inl e
      | Inr v \<Rightarrow>
          Inr \<lparr>details_id = poolId,
               tokenX = tx,
               tokenY = ty,
               tokenXMetadata = mx,
               tokenYMetadata = my,
               sqrtPriceX96 = sqrt_price_x96 pool,
               price = p,
               liquidity = liquidity_field pool,
               details_fee = div_1000000 (parseInt (fee_field pool)),
               details_tickSpacing = parseInt (tick_spacing pool),
               currentTick = parseInt (current_tick pool),
               tvl = v\<rparr>)))))))"

text \<open>
  The \<^verbatim>\<open>try\<close> block: a cached entry is returned as it is; otherwise the details are
  fetched and, when that succeeds, stored in the cache.
\<close>

definition getPoolDetails_try ::
  "('m, 'v) env \<Rightarrow> ('m, 'v) SuiLiquidityPool \<Rightarrow> string
     \<Rightarrow> (error + ('m, 'v) pool_details) \<times> ('m, 'v) SuiLiquidityPool"
where
  "getPoolDetails_try env this poolId =
     (case poolCache this poolId of
        Some cached \<Rightarrow> (Inr cached, this)
      | None \<Rightarrow>
          (case getPoolDetails_fetch env this poolId of
             Inl e \<Rightarrow> (Inl e, this)
           | Inr poolDetails \<Rightarrow>
               (Inr poolDetails,
                this\<lparr>poolCache := (poolCache this)(poolId \<mapsto> poolDetails)\<rparr>)))"

text \<open>The whole function: the \<^verbatim>\<open>catch\<close> clause throws a new error.\<close>

definition getPoolDetails ::
  "('m, 'v) env \<Rightarrow> ('m, 'v) SuiLiquidityPool \<Rightarrow> string
     \<Rightarrow> (error + ('m, 'v) pool_details) \<times> ('m, 'v) SuiLiquidityPool"
where
  "getPoolDetails env this poolId =
     (case getPoolDetails_try env this poolId of
        (Inl e, this') \<Rightarrow> (Inl (Error (''Failed to fetch pool details: '' @ message e)), this')
      | (Inr poolDetails, this') \<Rightarrow> (Inr poolDetails, this'))"

section \<open>createPool\<close>

text \<open>The \<^verbatim>\<open>create_pool\<close> call added to the transaction block.\<close>

definition create_pool_call ::
  "('m, 'v) SuiLiquidityPool \<Rightarrow> string \<Rightarrow> string \<Rightarrow> tier_lookup \<Rightarrow> string \<Rightarrow> move_call"
where
  "create_pool_call this tx ty tier sqrtPrice =
     \<lparr>target = packageId this @ ''::'' @ moduleName this @ ''::create_pool'',
      arguments =
        [Object (lpRegistryId this),
         Pure (JString tx),
         Pure (JString ty),
         Pure (JNumber (tier_fee_ppm tier)),
         Pure (tier_tickSpacing tier),
         Pure (JString sqrtPrice)],
      typeArguments = [tx, ty]\<rparr>"

text \<open>
  The object returned on success. The literal lists \<^verbatim>\<open>tokenX\<close>, \<^verbatim>\<open>tokenY\<close>,
  \<^verbatim>\<open>tickSpacing\<close>, \<^verbatim>\<open>fee\<close>, \<^verbatim>\<open>sqrtPriceX96\<close> and \<^verbatim>\<open>liquidity\<close> before it spreads
  \<^verbatim>\<open>poolDetails\<close>, which has all six keys, so the values of the pool details are the
  ones the object ends with. \<open>created_poolId\<close> and \<open>created_feeTier\<close> are the properties
  \<^verbatim>\<open>poolId\<close> and \<^verbatim>\<open>feeTier\<close>.
\<close>

record ('m, 'v) created =
  transactionDigest :: string
  created_poolId :: string
  created_feeTier :: string
  created_details :: "('m, 'v) pool_details"

text \<open>
  What \<^verbatim>\<open>createPool\<close> returns: \<open>Success c\<close> is the object with \<^verbatim>\<open>success: true\<close>,
  \<open>Failure m\<close> is \<^verbatim>\<open>{success: false, error: m}\<close>.
\<close>

datatype ('m, 'v) create_result = Success "('m, 'v) created" | Failure string

text \<open>
  The \<^verbatim>\<open>try\<close> block. The arguments after \<open>this\<close> are the properties of the \<^verbatim>\<open>params\<close>
  object; \<open>feeTier\<close> and \<open>initialPrice\<close> are \<open>None\<close> when the object does not have the
  property. An error thrown inside the block is the outcome \<open>Inl e\<close>.
\<close>

definition createPool_try ::
  "('m, 'v) env \<Rightarrow> ('m, 'v) SuiLiquidityPool \<Rightarrow> string \<Rightarrow> string \<Rightarrow> string option \<Rightarrow> signer
     \<Rightarrow> string option \<Rightarrow> (error + ('m, 'v) created) \<times> ('m, 'v) SuiLiquidityPool"
where
  "createPool_try env this coinTypeA coinTypeB feeTier signer initialPrice =
     (let feeTier' = (case feeTier of None \<Rightarrow> ''MEDIUM'' | Some f \<Rightarrow> f);
          initialPrice' = (case initialPrice of None \<Rightarrow> ''1.0'' | Some p \<Rightarrow> p)
      in
     (case sortTokens env coinTypeA coinTypeB of
        Inl e \<Rightarrow> (Inl e, this)
      | Inr (tx, ty) \<Rightarrow>
     (let tier = FEE_TIERS_get feeTier' in
      if tier = Undefined then
        (Inl (Error (''Invalid fee tier: '' @ feeTier' @ ''. Must be LOW, MEDIUM, or HIGH.'')),
         this)
      else
     (case priceToSqrtPriceX96 env initialPrice' of
        Inl e \<Rightarrow> (Inl e, this)
      | Inr sqrtPrice \<Rightarrow>
     (case getCoins env (provider this)
             \<lparr>owner = getAddress signer, coinType = None, limit = Some 1\<rparr> of
        Inl e \<Rightarrow> (Inl e, this)
      | Inr [] \<Rightarrow> (Inl (Error ''No gas objects available for transaction''), this)
      | Inr (gasObject # _) \<Rightarrow>
     (case signAndExecuteTransactionBlock signer
             \<lparr>moveCall = create_pool_call this tx ty tier sqrtPrice,
              gasPayment = [coinObjectId gasObject]\<rparr> of
        Inl e \<Rightarrow> (Inl e, this)
      | Inr result \<Rightarrow>
      if status result \<noteq> ''success'' then
        (Inl (Error (''Transaction failed: '' @
                (case status_error result of None \<Rightarrow> ''undefined'' | Some m \<Rightarrow> m))),
         this)
      else
     (case find (\<lambda>ev. includes_str (event_type ev) (moduleName this @ ''::PoolCreated''))
             (events result) of
        None \<Rightarrow> (Inl (Error ''Pool creation event not found in transaction''), this)
      | Some poolCreatedEvent \<Rightarrow>
     (case getPoolDetails env this (pool_id poolCreatedEvent) of
        (Inl e, this') \<Rightarrow> (Inl e, this')
      | (Inr poolDetails, this') \<Rightarrow>
          (Inr \<lparr>transactionDigest = digest result,
                created_poolId = pool_id poolCreatedEvent,
                created_feeTier = feeTier',
                created_details = poolDetails\<rparr>,
           this')))))))))"

text \<open>
  The function, called with a parameter object: the \<^verbatim>\<open>catch\<close> clause logs the error
  and returns an object. The destructuring of \<^verbatim>\<open>params\<close> stands before the \<^verbatim>\<open>try\<close>
  block, so a call with no object, which throws there, is outside the model; the
  outcome \<open>Inl e\<close> is kept in the type for it.
\<close>

definition createPool ::
  "('m, 'v) env \<Rightarrow> ('m, 'v) SuiLiquidityPool \<Rightarrow> string \<Rightarrow> string \<Rightarrow> string option \<Rightarrow> signer
     \<Rightarrow> string option \<Rightarrow> (error + ('m, 'v) create_result) \<times> ('m, 'v) SuiLiquidityPool"
where
  "createPool env this coinTypeA coinTypeB feeTier signer initialPrice =
     (case createPool_try env this coinTypeA coinTypeB feeTier signer initialPrice of
        (Inl e, this') \<Rightarrow> (Inr (Failure (message e)), this')
      | (Inr c, this') \<Rightarrow> (Inr (Success c), this'))"

section \<open>addLiquidity\<close>

text \<open>
  The source file ends inside the argument list of the \<^verbatim>\<open>add_liquidity\<close> call. The
  model covers the \<^verbatim>\<open>try\<close> block up to that point and gives the values it has computed
  by then: the pool it works on, the two coin objects, the two minimum amounts, and
  the target and the four arguments of the call that the text still shows. \<open>Inl e\<close>
  stands for \<open>e\<close> thrown inside the \<^verbatim>\<open>try\<close> block. The two coin requests run under
  \<^verbatim>\<open>Promise.all\<close>; when both fail the model reports the failure for token X.
\<close>

record ('m, 'v) add_liquidity_state =
  pool :: "('m, 'v) pool_details"
  coinX :: string
  coinY :: string
  amount0Min :: js_number
  amount1Min :: js_number
  call_target :: string
  call_arguments :: "tx_arg list"

definition addLiquidity_try ::
  "('m, 'v) env \<Rightarrow> ('m, 'v) SuiLiquidityPool \<Rightarrow> string \<Rightarrow> js_value \<Rightarrow> js_value \<Rightarrow> js_number
     \<Rightarrow> js_number \<Rightarrow> signer \<Rightarrow> js_number option
     \<Rightarrow> (error + ('m, 'v) add_liquidity_state) \<times> ('m, 'v) SuiLiquidityPool"
where
  "addLiquidity_try env this poolId tickLower tickUpper amountX amountY signer
       slippageTolerance =
     (let tolerance =
            (case slippageTolerance of None \<Rightarrow> Num (to_double (1 / 100)) | Some t \<Rightarrow> t)
      in
     (case getPoolDetails env this poolId of
        (Inl e, this') \<Rightarrow> (Inl e, this')
      | (Inr p, this') \<Rightarrow>
     (case getCoins env (provider this')
             \<lparr>owner = getAddress signer, coinType = Some (tokenX p), limit = None\<rparr> of
        Inl e \<Rightarrow> (Inl e, this')
      | Inr coinsX \<Rightarrow>
     (case getCoins env (provider this')
             \<lparr>owner = getAddress signer, coinType = Some (tokenY p), limit = None\<rparr> of
        Inl e \<Rightarrow> (Inl e, this')
      | Inr coinsY \<Rightarrow>
     (case (coinsX, coinsY) of
        (cx # _, cy # _) \<Rightarrow>
          (Inr \<lparr>pool = p,
                coinX = coinObjectId cx,
                coinY = coinObjectId cy,
                amount0Min = Math_floor (js_mul amountX (js_sub (Num 1) tolerance)),
                amount1Min = Math_floor (js_mul amountY (js_sub (Num 1) tolerance)),
                call_target = packageId this' @ ''::'' @ moduleName this' @ ''::add_liquidity'',
                call_arguments =
                  [Object poolId, Pure tickLower, Pure tickUpper, Object (coinObjectId cx)]\<rparr>,
           this')
      | _ \<Rightarrow> (Inl (Error ''Insufficient coins for liquidity provision''), this'))))))"

section \<open>The helpers of createPool as the specification describes them\<close>

text \<open>
  Modelled from the spec: the error kinds \<^verbatim>\<open>InvalidTokenPair\<close> and \<^verbatim>\<open>InvalidInput\<close> of
  its section 7. No error of the source file has these names, and an error of the
  module carries nothing but its message, so each kind is the error whose message is
  the name of the kind.
\<close>

definition InvalidTokenPair :: error where
  "InvalidTokenPair = Error ''InvalidTokenPair''"

definition InvalidInput :: error where
  "InvalidInput = Error ''InvalidInput''"

text \<open>
  Modelled from the spec: the method \<^verbatim>\<open>sortTokens\<close>, which \<^verbatim>\<open>createPool\<close> calls first
  and whose text is missing. Section 4.4 says that \<^verbatim>\<open>createPool\<close> canonicalizes the
  token order and fails with \<^verbatim>\<open>InvalidTokenPair\<close> if the two tokens are equal, and
  section 3 that \<^verbatim>\<open>tokenX < tokenY\<close> under the canonical ordering, taken here to be
  the order of the type names as strings.
\<close>

definition spec_sortTokens :: "string \<Rightarrow> string \<Rightarrow> error + string \<times> string" where
  "spec_sortTokens a b =
     (if a = b then Inl InvalidTokenPair else if a < b then Inr (a, b) else Inr (b, a))"

text \<open>
  Modelled from the spec: the method \<^verbatim>\<open>priceToSqrtPriceX96\<close>, whose text is missing.
  Section 4.1 says that it fails with \<^verbatim>\<open>InvalidInput\<close> for a zero or negative price.
  \<open>decimal\<close> reads the price text as a number and \<open>convert\<close> is the conversion of a
  positive price; the specification fixes neither, so both are parameters.
\<close>

definition spec_priceToSqrtPriceX96 ::
  "(string \<Rightarrow> rat) \<Rightarrow> (string \<Rightarrow> error + string) \<Rightarrow> string \<Rightarrow> error + string"
where
  "spec_priceToSqrtPriceX96 decimal convert initialPrice =
     (if decimal initialPrice \<le> 0 then Inl InvalidInput else convert initialPrice)"

section \<open>A sample environment\<close>

text \<open>
  One pool on the network, a wallet with one coin object, and a signer whose
  submission succeeds and emits the creation event of the pool.
\<close>

definition sample_fields :: pool_fields where
  "sample_fields =
     \<lparr>sqrt_price_x96 = ''79228162514264337593543950336'',
      liquidity_field = ''0'',
      fee_field = ''3000'',
      tick_spacing = ''60'',
      current_tick = ''0''\<rparr>"

definition sample_type :: string where
  "sample_type = ''0x1::liquidity_pool::Pool<0x2::sui::SUI, 0x3::usdc::USDC>''"

definition sample_response :: object_response where
  "sample_response = \<lparr>data = Some \<lparr>object_type = sample_type, content = Some sample_fields\<rparr>\<rparr>"

definition sample_env :: "(string, string) env" where
  "sample_env =
     \<lparr>getObject = (\<lambda>c i. Inr (Some sample_response)),
      getCoins = (\<lambda>c a. Inr [\<lparr>coinObjectId = ''0xc01''\<rparr>]),
      sortTokens = (\<lambda>a b. Inr (if a \<le> b then (a, b) else (b, a))),
      priceToSqrtPriceX96 = (\<lambda>p. Inr ''79228162514264337593543950336''),
      sqrtPriceX96ToPrice = (\<lambda>s. Inr ''1''),
      getTokenMetadata = (\<lambda>t. Inr t),
      calculatePoolTVL = (\<lambda>i x y l s t. Inr ''0'')\<rparr>"

definition sample_events :: "event list" where
  "sample_events =
     [\<lparr>event_type = ''0x2::coin::Transfer'', pool_id = ''0xnone''\<rparr>,
      \<lparr>event_type = ''0x1::liquidity_pool::PoolCreated'', pool_id = ''0xpool1''\<rparr>]"

definition sample_signer :: signer where
  "sample_signer =
     \<lparr>getAddress = ''0xa11ce'',
      signAndExecuteTransactionBlock =
        (\<lambda>t. Inr \<lparr>digest = ''D1'', status = ''success'', status_error = None,
                    events = sample_events\<rparr>)\<rparr>"

definition no_config :: config where
  "no_config =
     \<lparr>network = None, rpcEndpoint = None, cfg_packageId = None, cfg_lpRegistryId = None,
      cfg_moduleName = None, cacheTtlSeconds = None, cacheMaxEntries = None\<rparr>"

definition sample_this :: "(string, string) SuiLiquidityPool" where
  "sample_this = constructor no_config"

text \<open>The details \<^verbatim>\<open>getPoolDetails\<close> builds from the sample pool.\<close>

definition sample_details :: "string \<Rightarrow> (string, string) pool_details" where
  "sample_details poolId =
     \<lparr>details_id = poolId,
      tokenX = ''0x2::sui::SUI'',
      tokenY = ''0x3::usdc::USDC'',
      tokenXMetadata = ''0x2::sui::SUI'',
      tokenYMetadata = ''0x3::usdc::USDC'',
      sqrtPriceX96 = ''79228162514264337593543950336'',
      price = ''1'',
      liquidity = ''0'',
      details_fee = Num (to_double (3000 / 1000000)),
      details_tickSpacing = Num 60,
      currentTick = Num 0,
      tvl = ''0''\<rparr>"

text \<open>
  A configuration that asks for a cache of at most two entries kept for a minute, and
  the instance built from it after three pools have been looked up.
\<close>

definition bounded_config :: config where
  "bounded_config = no_config\<lparr>cacheTtlSeconds := Some 60, cacheMaxEntries := Some 2\<rparr>"

definition this_after_three :: "(string, string) SuiLiquidityPool" where
  "this_after_three =
     snd (getPoolDetails sample_env
       (snd (getPoolDetails sample_env
         (snd (getPoolDetails sample_env (constructor bounded_config) ''0xpool1''))
         ''0xpool2''))
       ''0xpool3'')"

text \<open>
  An instance whose cache holds an entry for the sample pool that differs from what the
  network now answers.
\<close>

definition stale_details :: "(string, string) pool_details" where
  "stale_details = (sample_details ''0xpool1'')\<lparr>liquidity := ''5000''\<rparr>"

definition stale_this :: "(string, string) SuiLiquidityPool" where
  "stale_this = sample_this\<lparr>poolCache := [''0xpool1'' \<mapsto> stale_details]\<rparr>"

text \<open>
  A signer whose wallet refuses to sign, a signer whose transaction emits no creation
  event, a network that cannot be reached, and a network that refuses to list coins.
\<close>

definition rejecting_signer :: signer where
  "rejecting_signer =
     sample_signer\<lparr>signAndExecuteTransactionBlock := (\<lambda>t. Inl (Error ''wallet rejected''))\<rparr>"

definition silent_signer :: signer where
  "silent_signer =
     sample_signer\<lparr>signAndExecuteTransactionBlock :=
       (\<lambda>t. Inr \<lparr>digest = ''D2'', status = ''success'', status_error = None,
                   events = [\<lparr>event_type = ''0x2::coin::Transfer'', pool_id = ''0xnone''\<rparr>]\<rparr>)\<rparr>"

definition offline_env :: "(string, string) env" where
  "offline_env = sample_env\<lparr>getObject := (\<lambda>c i. Inl (Error ''rpc unavailable''))\<rparr>"

definition no_coins_env :: "(string, string) env" where
  "no_coins_env = sample_env\<lparr>getCoins := (\<lambda>c a. Inl (Error ''rate limited''))\<rparr>"

text \<open>
  Modelled from the spec: an environment whose \<^verbatim>\<open>sortTokens\<close> and
  \<^verbatim>\<open>priceToSqrtPriceX96\<close> are the two methods as the specification describes them.
\<close>

definition with_spec_helpers ::
  "(string \<Rightarrow> rat) \<Rightarrow> (string \<Rightarrow> error + string) \<Rightarrow> ('m, 'v) env \<Rightarrow> ('m, 'v) env"
where
  "with_spec_helpers decimal convert env =
     env\<lparr>sortTokens := spec_sortTokens,
         priceToSqrtPriceX96 := spec_priceToSqrtPriceX96 decimal convert\<rparr>"

text \<open>A reading of two price texts, and the sample environment with the helpers above.\<close>

definition sample_decimal :: "string \<Rightarrow> rat" where
  "sample_decimal text = (if text = ''-1.0'' then - 1 else if text = ''0'' then 0 else 1)"

definition spec_env :: "(string, string) env" where
  "spec_env =
     with_spec_helpers sample_decimal (\<lambda>p. Inr ''79228162514264337593543950336'') sample_env"

section \<open>Properties of the numbers\<close>

lemma bit_length_pos: "0 < n \<Longrightarrow> bit_length n = Suc (bit_length (n div 2))"
  by (subst bit_length.simps) simp

lemma bit_length_nonpos: "n \<le> 0 \<Longrightarrow> bit_length n = 0"
  by (subst bit_length.simps) simp

text \<open>\<open>bit_length n\<close> is the number of binary digits of a positive \<open>n\<close>.\<close>

lemma bit_length_bounds:
  "0 < n \<Longrightarrow> 2 ^ (bit_length n - 1) \<le> n \<and> n < 2 ^ bit_length n"
proof (induction n rule: bit_length.induct)
  case (1 n)
  then have pos: "0 < n" by simp
  show ?case
  proof (cases "n div 2 \<le> 0")
    case True
    with pos have "n = 1" by linarith
    then show ?thesis by (simp add: bit_length_pos[of 1] bit_length_nonpos)
  next
    case False
    then have m: "0 < n div 2" by simp
    with 1 pos have IH: "2 ^ (bit_length (n div 2) - 1) \<le> n div 2"
      "n div 2 < 2 ^ bit_length (n div 2)" by simp_all
    from m have "bit_length (n div 2) = Suc (bit_length (n div 2 div 2))"
      by (rule bit_length_pos)
    then obtain k where k: "bit_length (n div 2) = Suc k" by blast
    have bl: "bit_length n = Suc (Suc k)" using bit_length_pos[OF pos] k by simp
    from IH k have "2 ^ k \<le> n div 2" "n div 2 < 2 ^ Suc k" by simp_all
    then have "2 * 2 ^ k \<le> n" "n < 2 * 2 ^ Suc k" by linarith+
    with bl show ?thesis by simp
  qed
qed

lemma pow2_pos: "0 < pow2 e"
  by (simp add: pow2_def)

lemma pow2_diff: "pow2 (int a - int b) = 2 ^ a / 2 ^ b"
proof (cases "b \<le> a")
  case True
  then have "nat (int a - int b) = a - b" by linarith
  with True have "pow2 (int a - int b) = 2 ^ (a - b)" by (simp add: pow2_def)
  also from True have "(2::rat) ^ (a - b) = 2 ^ a / 2 ^ b" by (simp add: power_diff)
  finally show ?thesis .
next
  case False
  then have "nat (- (int a - int b)) = b - a" by linarith
  with False have "pow2 (int a - int b) = 1 / 2 ^ (b - a)" by (simp add: pow2_def)
  also from False have "(2::rat) ^ (b - a) = 2 ^ b / 2 ^ a" by (simp add: power_diff)
  finally show ?thesis by simp
qed

lemma pow2_Suc: "pow2 (e + 1) = 2 * pow2 e"
proof (cases "0 \<le> e")
  case True
  then have "nat (e + 1) = Suc (nat e)" by linarith
  with True show ?thesis by (simp add: pow2_def)
next
  case False
  show ?thesis
  proof (cases "e = - 1")
    case True
    then show ?thesis by (simp add: pow2_def)
  next
    case False
    with \<open>\<not> 0 \<le> e\<close> have neg: "\<not> 0 \<le> e + 1" by linarith
    from \<open>\<not> 0 \<le> e\<close> have "nat (- e) = Suc (nat (- (e + 1)))" by linarith
    with neg \<open>\<not> 0 \<le> e\<close> show ?thesis by (simp add: pow2_def)
  qed
qed

text \<open>\<open>ilog2\<close> is the binary exponent of a positive rational.\<close>

lemma ilog2_bounds:
  assumes "0 < x"
  shows "pow2 (ilog2 x) \<le> x \<and> x < pow2 (ilog2 x + 1)"
proof -
  obtain n d where q: "quotient_of x = (n, d)" by (cases "quotient_of x")
  then have d: "0 < d" and x: "x = of_int n / of_int d"
    by (simp_all add: quotient_of_denom_pos quotient_of_div)
  with assms have n: "0 < n" by (simp add: zero_less_divide_iff)
  let ?a = "bit_length n" and ?b = "bit_length d"
  let ?e = "int ?a - int ?b"
  from bit_length_bounds[OF n] have na: "2 ^ (?a - 1) \<le> n" "n < 2 ^ ?a" by simp_all
  from bit_length_bounds[OF d] have db: "2 ^ (?b - 1) \<le> d" "d < 2 ^ ?b" by simp_all
  from bit_length_pos[OF n] obtain a' where a': "?a = Suc a'" by blast
  from bit_length_pos[OF d] obtain b' where b': "?b = Suc b'" by blast
  have "rat_of_int (2 ^ a') \<le> of_int n" "rat_of_int n < of_int (2 ^ Suc a')"
    using na a' by (simp_all only: of_int_le_iff of_int_less_iff diff_Suc_1)
  then have rn: "(2::rat) ^ a' \<le> of_int n" "of_int n < (2::rat) ^ Suc a'" by simp_all
  have "rat_of_int (2 ^ b') \<le> of_int d" "rat_of_int d < of_int (2 ^ Suc b')"
    using db b' by (simp_all only: of_int_le_iff of_int_less_iff diff_Suc_1)
  then have rd: "(2::rat) ^ b' \<le> of_int d" "of_int d < (2::rat) ^ Suc b'" by simp_all
  have dpos: "(0::rat) < of_int d" and npos: "(0::rat) < of_int n" using d n by simp_all
  have e: "pow2 ?e = 2 ^ a' / 2 ^ b'" by (simp add: pow2_diff a' b')
  have upper: "x < pow2 (?e + 1)"
  proof -
    have "of_int n * (2::rat) ^ b' < 2 ^ Suc a' * 2 ^ b'"
      using rn(2) by (intro mult_strict_right_mono) simp_all
    also have "\<dots> \<le> 2 ^ Suc a' * of_int d"
      using rd(1) by (intro mult_left_mono) simp_all
    finally have "of_int n / of_int d < (2::rat) ^ Suc a' / 2 ^ b'"
      using dpos by (simp add: field_simps)
    then show ?thesis by (simp add: pow2_Suc e x)
  qed
  have lower: "pow2 ?e \<le> 2 * x"
  proof -
    have "(2::rat) ^ a' * of_int d \<le> of_int n * of_int d"
      using rn(1) dpos by (intro mult_right_mono) simp_all
    also have "\<dots> \<le> of_int n * 2 ^ Suc b'"
      using rd(2) npos by (intro mult_left_mono) simp_all
    finally have "(2::rat) ^ a' / 2 ^ b' \<le> 2 * (of_int n / of_int d)"
      using dpos by (simp add: field_simps)
    then show ?thesis by (simp add: e x)
  qed
  show ?thesis
  proof (cases "pow2 ?e \<le> x")
    case True
    with q upper show ?thesis by (simp add: ilog2_def)
  next
    case False
    have "pow2 ?e = 2 * pow2 (?e - 1)" using pow2_Suc[of "?e - 1"] by simp
    with lower have "pow2 (?e - 1) \<le> x" by simp
    with False q show ?thesis by (simp add: ilog2_def)
  qed
qed

lemma round_half_even_near: "\<bar>of_int (round_half_even m) - m\<bar> \<le> 1 / 2"
proof -
  let ?f = "\<lfloor>m\<rfloor>"
  let ?r = "m - of_int ?f"
  have r: "0 \<le> ?r" "?r < 1" by linarith+
  consider "?r < 1 / 2" | "1 / 2 < ?r" | "?r = 1 / 2" by linarith
  then show ?thesis
  proof cases
    case 1
    then have "round_half_even m = ?f" by (simp add: round_half_even_def Let_def)
    with 1 r show ?thesis by simp
  next
    case 2
    then have "round_half_even m = ?f + 1" by (simp add: round_half_even_def Let_def)
    with 2 r show ?thesis by simp
  next
    case 3
    then have "round_half_even m = ?f \<or> round_half_even m = ?f + 1"
      by (simp add: round_half_even_def Let_def)
    with 3 show ?thesis by auto
  qed
qed

text \<open>
  \<open>to_double\<close> is a rounding to the nearest multiple of the unit in the last place of
  its argument: the result is within half a unit.
\<close>

lemma to_double_near:
  "\<bar>to_double x - x\<bar> \<le> pow2 (max (ilog2 \<bar>x\<bar> - 52) (- 1074)) / 2"
proof (cases "x = 0")
  case True
  then show ?thesis using pow2_pos[of "max (ilog2 \<bar>x\<bar> - 52) (- 1074)"] by (simp add: to_double_def)
next
  case False
  let ?u = "pow2 (max (ilog2 \<bar>x\<bar> - 52) (- 1074))"
  have u: "0 < ?u" by (rule pow2_pos)
  from False have "to_double x - x = (of_int (round_half_even (x / ?u)) - x / ?u) * ?u"
    using u by (simp add: to_double_def Let_def field_simps)
  then have "\<bar>to_double x - x\<bar> = \<bar>of_int (round_half_even (x / ?u)) - x / ?u\<bar> * ?u"
    using u by (simp add: abs_mult)
  also have "\<dots> \<le> 1 / 2 * ?u"
    using round_half_even_near[of "x / ?u"] u by (intro mult_right_mono) simp_all
  finally show ?thesis by simp
qed

section \<open>Properties of getPoolDetails and the cache\<close>

lemma getPoolDetails_hit:
  "poolCache this poolId = Some d \<Longrightarrow> getPoolDetails env this poolId = (Inr d, this)"
  by (simp add: getPoolDetails_def getPoolDetails_try_def)

lemma getPoolDetails_miss:
  "poolCache this poolId = None \<Longrightarrow>
   getPoolDetails env this poolId =
     (case getPoolDetails_fetch env this poolId of
        Inl e \<Rightarrow> (Inl (Error (''Failed to fetch pool details: '' @ message e)), this)
      | Inr d \<Rightarrow> (Inr d, this\<lparr>poolCache := (poolCache this)(poolId \<mapsto> d)\<rparr>))"
  by (simp add: getPoolDetails_def getPoolDetails_try_def split: sum.splits)

text \<open>The three ways a call of \<^verbatim>\<open>getPoolDetails\<close> can go.\<close>

lemma getPoolDetails_cases:
  obtains (hit) d where "poolCache this poolId = Some d"
      "getPoolDetails env this poolId = (Inr d, this)"
  | (failed) e where "poolCache this poolId = None"
      "getPoolDetails_fetch env this poolId = Inl e"
      "getPoolDetails env this poolId =
         (Inl (Error (''Failed to fetch pool details: '' @ message e)), this)"
  | (fetched) d where "poolCache this poolId = None"
      "getPoolDetails_fetch env this poolId = Inr d"
      "getPoolDetails env this poolId =
         (Inr d, this\<lparr>poolCache := (poolCache this)(poolId \<mapsto> d)\<rparr>)"
proof (cases "poolCache this poolId")
  case None
  show ?thesis
  proof (cases "getPoolDetails_fetch env this poolId")
    case (Inl e)
    with None show ?thesis by (intro failed[of e]) (simp_all add: getPoolDetails_miss)
  next
    case (Inr d)
    with None show ?thesis by (intro fetched[of d]) (simp_all add: getPoolDetails_miss)
  qed
next
  case (Some d)
  then show ?thesis by (intro hit[of d]) (simp_all add: getPoolDetails_hit)
qed

lemma poolCache_constructor: "poolCache (constructor c) = Map.empty"
  by (simp add: constructor_def Let_def)

subsection \<open>The sample environment\<close>

lemma parseInt_samples:
  "parseInt ''3000'' = Num 3000" "parseInt ''60'' = Num 60" "parseInt ''0'' = Num 0"
  by code_simp+

lemma match_pool_type_sample:
  "match_pool_type sample_type = Some (''0x2::sui::SUI'', ''0x3::usdc::USDC'')"
  by code_simp

lemma sample_fetch:
  "getPoolDetails_fetch sample_env this poolId = Inr (sample_details poolId)"
  by (simp add: getPoolDetails_fetch_def sample_env_def sample_response_def sample_fields_def
      sample_details_def parseInt_samples match_pool_type_sample)

lemma sample_getPoolDetails_miss:
  "poolCache this poolId = None \<Longrightarrow>
   getPoolDetails sample_env this poolId =
     (Inr (sample_details poolId),
      this\<lparr>poolCache := (poolCache this)(poolId \<mapsto> sample_details poolId)\<rparr>)"
  by (simp add: getPoolDetails_miss sample_fetch)

lemma poolCache_this_after_three:
  "poolCache this_after_three =
     [''0xpool1'' \<mapsto> sample_details ''0xpool1'', ''0xpool2'' \<mapsto> sample_details ''0xpool2'',
      ''0xpool3'' \<mapsto> sample_details ''0xpool3'']"
  by (simp add: this_after_three_def poolCache_constructor sample_getPoolDetails_miss)

subsection \<open>Claim C5: the size bound and the freshness window of the cache\<close>

text \<open>
  Claim C5 as stated fails. The instance is built from a configuration that asks for at
  most two cache entries; after three pools have been looked up the cache holds three
  entries, and the entry stored first is still there: nothing was evicted.
\<close>

theorem poolCache_exceeds_configured_maximum:
  "cacheMaxEntries bounded_config = Some 2
   \<and> card (dom (poolCache this_after_three)) = 3
   \<and> poolCache this_after_three ''0xpool1'' = Some (sample_details ''0xpool1'')"
  by (simp add: poolCache_this_after_three bounded_config_def)

text \<open>
  Claim C5 as amended: the pool cache has neither a size bound nor a freshness window.
  An entry is the pool details alone, with no timestamp, and a stored entry is returned
  as it is, whatever its age, leaving the instance unchanged. No call of
  \<^verbatim>\<open>getPoolDetails\<close> removes or changes an entry that is already stored; a call adds at
  most the entry of the pool it was asked for, which it does whenever it returns
  details; a call that throws leaves the instance unchanged.
\<close>

theorem poolCache_keeps_every_entry:
  "(\<forall>d. poolCache this poolId = Some d \<longrightarrow> getPoolDetails env this poolId = (Inr d, this))
   \<and> (\<forall>k d. poolCache this k = Some d \<longrightarrow>
         poolCache (snd (getPoolDetails env this poolId)) k = Some d)
   \<and> dom (poolCache (snd (getPoolDetails env this poolId))) \<subseteq> insert poolId (dom (poolCache this))
   \<and> (\<forall>d. fst (getPoolDetails env this poolId) = Inr d \<longrightarrow>
         poolCache (snd (getPoolDetails env this poolId)) poolId = Some d)
   \<and> (\<forall>e. fst (getPoolDetails env this poolId) = Inl e \<longrightarrow>
         snd (getPoolDetails env this poolId) = this)"
  by (cases rule: getPoolDetails_cases[of this poolId env]) auto

text \<open>
  The theorem at an instance whose cache holds one entry: the entry is returned on a
  lookup, and it is still there after another pool has been fetched and stored.
\<close>

theorem poolCache_keeps_every_entry_witness:
  "poolCache stale_this ''0xpool1'' = Some stale_details
   \<and> fst (getPoolDetails sample_env stale_this ''0xpool2'') = Inr (sample_details ''0xpool2'')
   \<and> getPoolDetails sample_env stale_this ''0xpool1'' = (Inr stale_details, stale_this)
   \<and> poolCache (snd (getPoolDetails sample_env stale_this ''0xpool2'')) ''0xpool1''
         = Some stale_details
   \<and> poolCache (snd (getPoolDetails sample_env stale_this ''0xpool2'')) ''0xpool2''
         = Some (sample_details ''0xpool2'')"
proof -
  have h1: "poolCache stale_this ''0xpool1'' = Some stale_details"
    by (simp add: stale_this_def)
  have "poolCache stale_this ''0xpool2'' = None"
    by (simp add: stale_this_def)
  then have h2: "fst (getPoolDetails sample_env stale_this ''0xpool2'')
      = Inr (sample_details ''0xpool2'')"
    by (simp add: sample_getPoolDetails_miss)
  from poolCache_keeps_every_entry [of stale_this "''0xpool1''" sample_env] h1
  have c1: "getPoolDetails sample_env stale_this ''0xpool1'' = (Inr stale_details, stale_this)"
    by blast
  from poolCache_keeps_every_entry [of stale_this "''0xpool2''" sample_env] h1 h2
  have c2: "poolCache (snd (getPoolDetails sample_env stale_this ''0xpool2'')) ''0xpool1''
      = Some stale_details"
    and c3: "poolCache (snd (getPoolDetails sample_env stale_this ''0xpool2'')) ''0xpool2''
      = Some (sample_details ''0xpool2'')"
    by blast+
  from h1 h2 c1 c2 c3 show ?thesis by blast
qed

section \<open>Properties of the constructor\<close>

lemma or_default_case:
  "or_default x d = (case x of None \<Rightarrow> d | Some s \<Rightarrow> if s = [] then d else s)"
  by (cases x) simp_all

text \<open>
  Claim C9 as stated fails: the override does not need the network to be \<^verbatim>\<open>mainnet\<close> or
  unspecified. The \<^verbatim>\<open>default:\<close> label of the switch takes every other name, so with
  the network \<^verbatim>\<open>localnet\<close> the provider is built over the configured \<^verbatim>\<open>rpcEndpoint\<close>,
  and over the mainnet connection when none is configured.
\<close>

theorem constructor_localnet_endpoint:
  "network (no_config\<lparr>network := Some ''localnet'',
       rpcEndpoint := Some ''http://127.0.0.1:9000''\<rparr>) \<noteq> Some ''mainnet''
   \<and> network (no_config\<lparr>network := Some ''localnet'',
       rpcEndpoint := Some ''http://127.0.0.1:9000''\<rparr>) \<noteq> None
   \<and> provider (constructor (no_config\<lparr>network := Some ''localnet'',
       rpcEndpoint := Some ''http://127.0.0.1:9000''\<rparr>) :: (string, string) SuiLiquidityPool)
     = Endpoint ''http://127.0.0.1:9000''
   \<and> provider (constructor (no_config\<lparr>network := Some ''localnet''\<rparr>)
        :: (string, string) SuiLiquidityPool) = mainnetConnection"
  by (simp add: constructor_def no_config_def)

text \<open>
  Claim C9 as amended: the \<^verbatim>\<open>rpcEndpoint\<close> override takes effect exactly when the
  configured network is neither \<^verbatim>\<open>devnet\<close> nor \<^verbatim>\<open>testnet\<close> and \<^verbatim>\<open>rpcEndpoint\<close> is set to
  a value that is not empty; \<^verbatim>\<open>mainnet\<close>, no network and every other network name take
  the same branch. For every configuration whose network is \<^verbatim>\<open>devnet\<close> or \<^verbatim>\<open>testnet\<close>
  the provider is built over the fixed devnet or testnet connection, whatever
  \<^verbatim>\<open>rpcEndpoint\<close> is set to.
\<close>

theorem constructor_fixed_endpoint:
  "(network c = Some ''devnet'' \<longrightarrow>
      provider (constructor (c\<lparr>rpcEndpoint := e\<rparr>) :: ('m, 'v) SuiLiquidityPool)
        = devnetConnection)
   \<and> (network c = Some ''testnet'' \<longrightarrow>
      provider (constructor (c\<lparr>rpcEndpoint := e\<rparr>) :: ('m, 'v) SuiLiquidityPool)
        = testnetConnection)
   \<and> ((provider (constructor c :: ('m, 'v) SuiLiquidityPool) = Endpoint url) =
      (network c \<noteq> Some ''devnet'' \<and> network c \<noteq> Some ''testnet''
       \<and> rpcEndpoint c = Some url \<and> url \<noteq> []))"
  by (auto simp: constructor_def Let_def or_default_case split: option.splits if_splits)

text \<open>
  The theorem at four configurations with the same \<^verbatim>\<open>rpcEndpoint\<close>: on devnet, on
  testnet, with no network given, and on a network named \<^verbatim>\<open>localnet\<close>.
\<close>

theorem constructor_fixed_endpoint_witness:
  "provider (constructor (no_config\<lparr>network := Some ''devnet'',
       rpcEndpoint := Some ''http://127.0.0.1:9000''\<rparr>) :: (string, string) SuiLiquidityPool)
     = devnetConnection
   \<and> provider (constructor (no_config\<lparr>network := Some ''testnet'',
       rpcEndpoint := Some ''http://127.0.0.1:9000''\<rparr>) :: (string, string) SuiLiquidityPool)
     = testnetConnection
   \<and> provider (constructor (no_config\<lparr>rpcEndpoint := Some ''http://127.0.0.1:9000''\<rparr>)
        :: (string, string) SuiLiquidityPool) = Endpoint ''http://127.0.0.1:9000''
   \<and> network (no_config\<lparr>rpcEndpoint := Some ''http://127.0.0.1:9000''\<rparr>) \<noteq> Some ''devnet''
   \<and> network (no_config\<lparr>rpcEndpoint := Some ''http://127.0.0.1:9000''\<rparr>) \<noteq> Some ''testnet''
   \<and> provider (constructor (no_config\<lparr>network := Some ''localnet'',
       rpcEndpoint := Some ''http://127.0.0.1:9000''\<rparr>) :: (string, string) SuiLiquidityPool)
     = Endpoint ''http://127.0.0.1:9000''"
proof -
  let ?url = "''http://127.0.0.1:9000''"
  let ?local = "no_config\<lparr>network := Some ''localnet'', rpcEndpoint := Some ?url\<rparr>"
  have d: "network (no_config\<lparr>network := Some ''devnet''\<rparr>) = Some ''devnet''"
    and t: "network (no_config\<lparr>network := Some ''testnet''\<rparr>) = Some ''testnet''"
    by simp_all
  have m: "provider (constructor (no_config\<lparr>rpcEndpoint := Some ?url\<rparr>)
        :: (string, string) SuiLiquidityPool) = Endpoint ?url"
    by (simp add: constructor_def no_config_def)
  have l: "network ?local \<noteq> Some ''devnet''" "network ?local \<noteq> Some ''testnet''"
    "rpcEndpoint ?local = Some ?url" "?url \<noteq> []"
    by simp_all
  from constructor_fixed_endpoint
         [where c = "no_config\<lparr>network := Some ''devnet''\<rparr>"
            and e = "Some ?url" and 'm = string and 'v = string] d
  have 1: "provider (constructor (no_config\<lparr>network := Some ''devnet'',
       rpcEndpoint := Some ?url\<rparr>) :: (string, string) SuiLiquidityPool)
     = devnetConnection"
    by blast
  from constructor_fixed_endpoint
         [where c = "no_config\<lparr>network := Some ''testnet''\<rparr>"
            and e = "Some ?url" and 'm = string and 'v = string] t
  have 2: "provider (constructor (no_config\<lparr>network := Some ''testnet'',
       rpcEndpoint := Some ?url\<rparr>) :: (string, string) SuiLiquidityPool)
     = testnetConnection"
    by blast
  from constructor_fixed_endpoint
         [where c = "no_config\<lparr>rpcEndpoint := Some ?url\<rparr>"
            and url = ?url and 'm = string and 'v = string] m
  have 3: "network (no_config\<lparr>rpcEndpoint := Some ?url\<rparr>) \<noteq> Some ''devnet''
    \<and> network (no_config\<lparr>rpcEndpoint := Some ?url\<rparr>) \<noteq> Some ''testnet''"
    by blast
  from constructor_fixed_endpoint
         [where c = ?local and url = ?url and 'm = string and 'v = string] l
  have 4: "provider (constructor ?local :: (string, string) SuiLiquidityPool) = Endpoint ?url"
    by blast
  from 1 2 3 4 m show ?thesis by blast
qed

section \<open>Properties of createPool\<close>

text \<open>
  Claim C10: a call without \<^verbatim>\<open>feeTier\<close> behaves as the same call with \<^verbatim>\<open>feeTier\<close>
  \<^verbatim>\<open>'MEDIUM'\<close>, and a call without \<^verbatim>\<open>initialPrice\<close> as the same call with
  \<^verbatim>\<open>initialPrice\<close> \<^verbatim>\<open>"1.0"\<close>: the outcome and the instance afterwards are the same.
\<close>

theorem createPool_defaults:
  "createPool env this a b None s p = createPool env this a b (Some ''MEDIUM'') s p
   \<and> createPool env this a b f s None = createPool env this a b f s (Some ''1.0'')"
  by (simp add: createPool_def createPool_try_def)

text \<open>\<open>includes_str\<close> is the test for a substring.\<close>

lemma includes_str_iff: "includes_str s t \<longleftrightarrow> (\<exists>u v. s = u @ t @ v)"
proof (induction s)
  case Nil
  then show ?case by simp
next
  case (Cons c s)
  show ?case
  proof
    assume "includes_str (c # s) t"
    then consider "prefix t (c # s)" | "includes_str s t" by auto
    then show "\<exists>u v. c # s = u @ t @ v"
    proof cases
      case 1
      then obtain v where "c # s = t @ v" by (auto simp: prefix_def)
      then have "c # s = [] @ t @ v" by simp
      then show ?thesis by blast
    next
      case 2
      with Cons.IH obtain u v where "s = u @ t @ v" by blast
      then have "c # s = (c # u) @ t @ v" by simp
      then show ?thesis by blast
    qed
  next
    assume "\<exists>u v. c # s = u @ t @ v"
    then obtain u v where *: "c # s = u @ t @ v" by blast
    show "includes_str (c # s) t"
    proof (cases u)
      case Nil
      with * have "prefix t (c # s)" by (simp add: prefix_def)
      then show ?thesis by simp
    next
      case (Cons a u')
      with * have "s = u' @ t @ v" by simp
      with Cons.IH have "includes_str s t" by blast
      then show ?thesis by simp
    qed
  qed
qed

lemma find_first:
  "\<forall>e\<in>set pre. \<not> P e \<Longrightarrow> P ev \<Longrightarrow> find P (pre @ ev # post) = Some ev"
  by (induction pre) auto

lemma find_none: "\<forall>e\<in>set xs. \<not> P e \<Longrightarrow> find P xs = None"
  by (induction xs) auto

text \<open>
  What \<^verbatim>\<open>createPool\<close> does once the submission has returned with status
  \<^verbatim>\<open>success\<close>.
\<close>

lemma createPool_after_submission:
  assumes "sortTokens env a b = Inr (tx, ty)"
    and "FEE_TIERS_get (case f of None \<Rightarrow> ''MEDIUM'' | Some x \<Rightarrow> x) = tier" and "tier \<noteq> Undefined"
    and "priceToSqrtPriceX96 env (case p of None \<Rightarrow> ''1.0'' | Some x \<Rightarrow> x) = Inr sp"
    and "getCoins env (provider this) \<lparr>owner = getAddress s, coinType = None, limit = Some 1\<rparr>
           = Inr (g # gs)"
    and "signAndExecuteTransactionBlock s
           \<lparr>moveCall = create_pool_call this tx ty tier sp, gasPayment = [coinObjectId g]\<rparr> = Inr r"
    and "status r = ''success''"
  shows "createPool env this a b f s p =
     (case find (\<lambda>ev. includes_str (event_type ev) (moduleName this @ ''::PoolCreated''))
             (events r) of
        None \<Rightarrow> (Inr (Failure ''Pool creation event not found in transaction''), this)
      | Some ev \<Rightarrow>
          (case getPoolDetails env this (pool_id ev) of
             (Inl e, this') \<Rightarrow> (Inr (Failure (message e)), this')
           | (Inr d, this') \<Rightarrow>
               (Inr (Success \<lparr>transactionDigest = digest r, created_poolId = pool_id ev,
                       created_feeTier = (case f of None \<Rightarrow> ''MEDIUM'' | Some x \<Rightarrow> x),
                       created_details = d\<rparr>), this')))"
  using assms
  by (simp add: createPool_def createPool_try_def Let_def split: option.splits sum.splits prod.splits)

text \<open>
  Claim C6: after a submission that succeeded, \<^verbatim>\<open>createPool\<close> fails with the message
  that the pool creation event was not found when no returned event has a type that
  contains \<^verbatim>\<open><module>::PoolCreated\<close>; otherwise the pool id is the \<^verbatim>\<open>pool_id\<close> of the
  first returned event whose type contains that name: it is the id the details are
  fetched for and the \<^verbatim>\<open>poolId\<close> of the result.
\<close>

theorem createPool_pool_created_event:
  assumes "sortTokens env a b = Inr (tx, ty)"
    and "FEE_TIERS_get (case f of None \<Rightarrow> ''MEDIUM'' | Some x \<Rightarrow> x) = tier" and "tier \<noteq> Undefined"
    and "priceToSqrtPriceX96 env (case p of None \<Rightarrow> ''1.0'' | Some x \<Rightarrow> x) = Inr sp"
    and "getCoins env (provider this) \<lparr>owner = getAddress s, coinType = None, limit = Some 1\<rparr>
           = Inr (g # gs)"
    and "signAndExecuteTransactionBlock s
           \<lparr>moveCall = create_pool_call this tx ty tier sp, gasPayment = [coinObjectId g]\<rparr> = Inr r"
    and "status r = ''success''"
  shows "((\<forall>ev\<in>set (events r).
             \<not> includes_str (event_type ev) (moduleName this @ ''::PoolCreated'')) \<longrightarrow>
          createPool env this a b f s p =
            (Inr (Failure ''Pool creation event not found in transaction''), this))
     \<and> (\<forall>pre ev post.
          events r = pre @ ev # post
          \<and> (\<forall>e\<in>set pre. \<not> includes_str (event_type e) (moduleName this @ ''::PoolCreated''))
          \<and> includes_str (event_type ev) (moduleName this @ ''::PoolCreated'') \<longrightarrow>
          createPool env this a b f s p =
            (case getPoolDetails env this (pool_id ev) of
               (Inl e, this') \<Rightarrow> (Inr (Failure (message e)), this')
             | (Inr d, this') \<Rightarrow>
                 (Inr (Success \<lparr>transactionDigest = digest r, created_poolId = pool_id ev,
                         created_feeTier = (case f of None \<Rightarrow> ''MEDIUM'' | Some x \<Rightarrow> x),
                         created_details = d\<rparr>), this')))"
proof (intro conjI impI allI)
  assume "\<forall>ev\<in>set (events r). \<not> includes_str (event_type ev) (moduleName this @ ''::PoolCreated'')"
  then have "find (\<lambda>ev. includes_str (event_type ev) (moduleName this @ ''::PoolCreated''))
      (events r) = None"
    by (rule find_none)
  then show "createPool env this a b f s p =
      (Inr (Failure ''Pool creation event not found in transaction''), this)"
    by (simp add: createPool_after_submission[OF assms])
next
  fix pre ev post
  assume "events r = pre @ ev # post
    \<and> (\<forall>e\<in>set pre. \<not> includes_str (event_type e) (moduleName this @ ''::PoolCreated''))
    \<and> includes_str (event_type ev) (moduleName this @ ''::PoolCreated'')"
  then have "find (\<lambda>ev. includes_str (event_type ev) (moduleName this @ ''::PoolCreated''))
      (events r) = Some ev"
    by (simp add: find_first)
  then show "createPool env this a b f s p =
            (case getPoolDetails env this (pool_id ev) of
               (Inl e, this') \<Rightarrow> (Inr (Failure (message e)), this')
             | (Inr d, this') \<Rightarrow>
                 (Inr (Success \<lparr>transactionDigest = digest r, created_poolId = pool_id ev,
                         created_feeTier = (case f of None \<Rightarrow> ''MEDIUM'' | Some x \<Rightarrow> x),
                         created_details = d\<rparr>), this'))"
    by (simp add: createPool_after_submission[OF assms])
qed

lemma sample_this_fields:
  "provider sample_this = mainnetConnection" "packageId sample_this = DEX_PACKAGE_ID"
  "lpRegistryId sample_this = LP_REGISTRY_ID" "moduleName sample_this = MODULE_NAME"
  "poolCache sample_this = Map.empty"
  by (simp_all add: sample_this_def constructor_def no_config_def)

lemma sample_tier:
  "FEE_TIERS_get (case None of None \<Rightarrow> ''MEDIUM'' | Some x \<Rightarrow> x)
     = Own \<lparr>fee = Num (to_double (3 / 1000)), tickSpacing = Num 60\<rparr>"
  by (simp add: FEE_TIERS_get_def FEE_TIERS_def)

lemma sample_sortTokens:
  "sortTokens sample_env ''0x3::usdc::USDC'' ''0x2::sui::SUI''
     = Inr (''0x2::sui::SUI'', ''0x3::usdc::USDC'')"
  by code_simp

text \<open>
  The theorem at two submissions: one that emits no creation event, and one that emits a
  transfer event followed by the creation event of the pool \<^verbatim>\<open>0xpool1\<close>.
\<close>

theorem createPool_pool_created_event_witness:
  "createPool sample_env sample_this ''0x3::usdc::USDC'' ''0x2::sui::SUI'' None silent_signer None
     = (Inr (Failure ''Pool creation event not found in transaction''), sample_this)
   \<and> fst (createPool sample_env sample_this ''0x3::usdc::USDC'' ''0x2::sui::SUI'' None
            sample_signer None)
       = Inr (Success \<lparr>transactionDigest = ''D1'', created_poolId = ''0xpool1'',
                created_feeTier = ''MEDIUM'', created_details = sample_details ''0xpool1''\<rparr>)"
proof -
  let ?tier = "Own \<lparr>fee = Num (to_double (3 / 1000)), tickSpacing = Num 60\<rparr>"
  let ?sp = "''79228162514264337593543950336''"
  let ?g = "\<lparr>coinObjectId = ''0xc01''\<rparr>"
  let ?r = "\<lparr>digest = ''D1'', status = ''success'', status_error = None,
             events = sample_events\<rparr>"
  let ?r2 = "\<lparr>digest = ''D2'', status = ''success'', status_error = None,
             events = [\<lparr>event_type = ''0x2::coin::Transfer'', pool_id = ''0xnone''\<rparr>]\<rparr>"
  let ?pre = "[\<lparr>event_type = ''0x2::coin::Transfer'', pool_id = ''0xnone''\<rparr>]"
  let ?ev = "\<lparr>event_type = ''0x1::liquidity_pool::PoolCreated'', pool_id = ''0xpool1''\<rparr>"
  have tier: "?tier \<noteq> Undefined" by simp
  have pr: "priceToSqrtPriceX96 sample_env (case None of None \<Rightarrow> ''1.0'' | Some x \<Rightarrow> x) = Inr ?sp"
    by (simp add: sample_env_def)
  have coins: "getCoins sample_env (provider sample_this)
        \<lparr>owner = getAddress sample_signer, coinType = None, limit = Some 1\<rparr> = Inr (?g # [])"
    "getCoins sample_env (provider sample_this)
        \<lparr>owner = getAddress silent_signer, coinType = None, limit = Some 1\<rparr> = Inr (?g # [])"
    by (simp_all add: sample_env_def)
  have ok: "signAndExecuteTransactionBlock sample_signer
       \<lparr>moveCall = create_pool_call sample_this ''0x2::sui::SUI'' ''0x3::usdc::USDC'' ?tier ?sp,
        gasPayment = [coinObjectId ?g]\<rparr> = Inr ?r"
    "status ?r = ''success''"
    by (simp_all add: sample_signer_def)
  have silent: "signAndExecuteTransactionBlock silent_signer
       \<lparr>moveCall = create_pool_call sample_this ''0x2::sui::SUI'' ''0x3::usdc::USDC'' ?tier ?sp,
        gasPayment = [coinObjectId ?g]\<rparr> = Inr ?r2"
    "status ?r2 = ''success''"
    by (simp_all add: silent_signer_def)
  have none: "\<forall>ev\<in>set (events ?r2).
      \<not> includes_str (event_type ev) (moduleName sample_this @ ''::PoolCreated'')"
    by code_simp
  have split: "events ?r = ?pre @ ?ev # []" by (simp add: sample_events_def)
  have pre: "\<forall>e\<in>set ?pre. \<not> includes_str (event_type e) (moduleName sample_this @ ''::PoolCreated'')"
    by code_simp
  have ev: "includes_str (event_type ?ev) (moduleName sample_this @ ''::PoolCreated'')"
    by code_simp
  from createPool_pool_created_event [OF sample_sortTokens sample_tier tier pr coins(2) silent] none
  have 1: "createPool sample_env sample_this ''0x3::usdc::USDC'' ''0x2::sui::SUI'' None
       silent_signer None
     = (Inr (Failure ''Pool creation event not found in transaction''), sample_this)"
    by blast
  from createPool_pool_created_event [OF sample_sortTokens sample_tier tier pr coins(1) ok]
       split pre ev
  have "createPool sample_env sample_this ''0x3::usdc::USDC'' ''0x2::sui::SUI'' None
       sample_signer None
     = (case getPoolDetails sample_env sample_this (pool_id ?ev) of
          (Inl e, this') \<Rightarrow> (Inr (Failure (message e)), this')
        | (Inr d, this') \<Rightarrow>
            (Inr (Success \<lparr>transactionDigest = digest ?r, created_poolId = pool_id ?ev,
                    created_feeTier = (case None of None \<Rightarrow> ''MEDIUM'' | Some x \<Rightarrow> x),
                    created_details = d\<rparr>), this'))"
    by blast
  then have 2: "fst (createPool sample_env sample_this ''0x3::usdc::USDC'' ''0x2::sui::SUI'' None
            sample_signer None)
       = Inr (Success \<lparr>transactionDigest = ''D1'', created_poolId = ''0xpool1'',
                created_feeTier = ''MEDIUM'', created_details = sample_details ''0xpool1''\<rparr>)"
    by (simp add: sample_getPoolDetails_miss sample_this_fields)
  from 1 2 show ?thesis by blast
qed

section \<open>Errors of the collaborators\<close>

lemma getPoolDetails_fetch_getObject_fails:
  "getObject env (provider this) poolId = Inl e \<Longrightarrow> getPoolDetails_fetch env this poolId = Inl e"
  by (simp add: getPoolDetails_fetch_def)

text \<open>
  Claim C8 as amended: an \<^verbatim>\<open>Error\<close> object thrown by an external collaborator reaches
  the caller as follows. \<^verbatim>\<open>getPoolDetails\<close>, when the pool is not cached and the fetch
  of the pool object throws, throws a new error whose message is
  \<^verbatim>\<open>Failed to fetch pool details: \<close> followed by the message of the original error, and
  leaves the instance unchanged. \<^verbatim>\<open>createPool\<close>, called with a parameter object, returns
  an object in each of these cases: when the request for the gas coins or the
  submission throws, the failure object whose \<^verbatim>\<open>error\<close> is the message of the original
  error; when the submission reports a status other than \<^verbatim>\<open>success\<close>, the failure
  object with \<^verbatim>\<open>Transaction failed: \<close> and the reported error; and when the fetch of the
  new pool throws, the failure object with the message \<^verbatim>\<open>getPoolDetails\<close> gave the
  error. In all four cases the result is a failure object and the instance is
  unchanged.
\<close>

theorem collaborator_errors:
  "(poolCache this poolId = None \<and> getObject env (provider this) poolId = Inl e \<longrightarrow>
      getPoolDetails env this poolId =
        (Inl (Error (''Failed to fetch pool details: '' @ message e)), this))
   \<and> (sortTokens env a b = Inr (tx, ty)
       \<and> FEE_TIERS_get (case f of None \<Rightarrow> ''MEDIUM'' | Some x \<Rightarrow> x) = tier \<and> tier \<noteq> Undefined
       \<and> priceToSqrtPriceX96 env (case p of None \<Rightarrow> ''1.0'' | Some x \<Rightarrow> x) = Inr sp \<longrightarrow>
       (getCoins env (provider this) \<lparr>owner = getAddress s, coinType = None, limit = Some 1\<rparr>
          = Inl e \<longrightarrow>
        createPool env this a b f s p = (Inr (Failure (message e)), this))
     \<and> (getCoins env (provider this) \<lparr>owner = getAddress s, coinType = None, limit = Some 1\<rparr>
          = Inr (g # gs)
        \<and> signAndExecuteTransactionBlock s
            \<lparr>moveCall = create_pool_call this tx ty tier sp, gasPayment = [coinObjectId g]\<rparr>
          = Inl e \<longrightarrow>
        createPool env this a b f s p = (Inr (Failure (message e)), this))
     \<and> (getCoins env (provider this) \<lparr>owner = getAddress s, coinType = None, limit = Some 1\<rparr>
          = Inr (g # gs)
        \<and> signAndExecuteTransactionBlock s
            \<lparr>moveCall = create_pool_call this tx ty tier sp, gasPayment = [coinObjectId g]\<rparr>
          = Inr r
        \<and> status r \<noteq> ''success'' \<longrightarrow>
        createPool env this a b f s p =
          (Inr (Failure (''Transaction failed: '' @
             (case status_error r of None \<Rightarrow> ''undefined'' | Some m \<Rightarrow> m))), this))
     \<and> (getCoins env (provider this) \<lparr>owner = getAddress s, coinType = None, limit = Some 1\<rparr>
          = Inr (g # gs)
        \<and> signAndExecuteTransactionBlock s
            \<lparr>moveCall = create_pool_call this tx ty tier sp, gasPayment = [coinObjectId g]\<rparr>
          = Inr r
        \<and> status r = ''success''
        \<and> find (\<lambda>ev. includes_str (event_type ev) (moduleName this @ ''::PoolCreated''))
             (events r) = Some ev
        \<and> poolCache this (pool_id ev) = None
        \<and> getObject env (provider this) (pool_id ev) = Inl e \<longrightarrow>
        createPool env this a b f s p =
          (Inr (Failure (''Failed to fetch pool details: '' @ message e)), this)))"
proof (intro conjI impI)
  assume "poolCache this poolId = None \<and> getObject env (provider this) poolId = Inl e"
  then show "getPoolDetails env this poolId =
        (Inl (Error (''Failed to fetch pool details: '' @ message e)), this)"
    by (simp add: getPoolDetails_miss getPoolDetails_fetch_getObject_fails)
next
  assume "sortTokens env a b = Inr (tx, ty)
       \<and> FEE_TIERS_get (case f of None \<Rightarrow> ''MEDIUM'' | Some x \<Rightarrow> x) = tier \<and> tier \<noteq> Undefined
       \<and> priceToSqrtPriceX96 env (case p of None \<Rightarrow> ''1.0'' | Some x \<Rightarrow> x) = Inr sp"
    and "getCoins env (provider this) \<lparr>owner = getAddress s, coinType = None, limit = Some 1\<rparr>
          = Inl e"
  then show "createPool env this a b f s p = (Inr (Failure (message e)), this)"
    by (simp add: createPool_def createPool_try_def Let_def)
next
  assume "sortTokens env a b = Inr (tx, ty)
       \<and> FEE_TIERS_get (case f of None \<Rightarrow> ''MEDIUM'' | Some x \<Rightarrow> x) = tier \<and> tier \<noteq> Undefined
       \<and> priceToSqrtPriceX96 env (case p of None \<Rightarrow> ''1.0'' | Some x \<Rightarrow> x) = Inr sp"
    and "getCoins env (provider this) \<lparr>owner = getAddress s, coinType = None, limit = Some 1\<rparr>
          = Inr (g # gs)
        \<and> signAndExecuteTransactionBlock s
            \<lparr>moveCall = create_pool_call this tx ty tier sp, gasPayment = [coinObjectId g]\<rparr>
          = Inl e"
  then show "createPool env this a b f s p = (Inr (Failure (message e)), this)"
    by (simp add: createPool_def createPool_try_def Let_def)
next
  assume "sortTokens env a b = Inr (tx, ty)
       \<and> FEE_TIERS_get (case f of None \<Rightarrow> ''MEDIUM'' | Some x \<Rightarrow> x) = tier \<and> tier \<noteq> Undefined
       \<and> priceToSqrtPriceX96 env (case p of None \<Rightarrow> ''1.0'' | Some x \<Rightarrow> x) = Inr sp"
    and "getCoins env (provider this) \<lparr>owner = getAddress s, coinType = None, limit = Some 1\<rparr>
          = Inr (g # gs)
        \<and> signAndExecuteTransactionBlock s
            \<lparr>moveCall = create_pool_call this tx ty tier sp, gasPayment = [coinObjectId g]\<rparr>
          = Inr r
        \<and> status r \<noteq> ''success''"
  then show "createPool env this a b f s p =
          (Inr (Failure (''Transaction failed: '' @
             (case status_error r of None \<Rightarrow> ''undefined'' | Some m \<Rightarrow> m))), this)"
    by (simp add: createPool_def createPool_try_def Let_def)
next
  assume 1: "sortTokens env a b = Inr (tx, ty)
       \<and> FEE_TIERS_get (case f of None \<Rightarrow> ''MEDIUM'' | Some x \<Rightarrow> x) = tier \<and> tier \<noteq> Undefined
       \<and> priceToSqrtPriceX96 env (case p of None \<Rightarrow> ''1.0'' | Some x \<Rightarrow> x) = Inr sp"
    and 2: "getCoins env (provider this) \<lparr>owner = getAddress s, coinType = None, limit = Some 1\<rparr>
          = Inr (g # gs)
        \<and> signAndExecuteTransactionBlock s
            \<lparr>moveCall = create_pool_call this tx ty tier sp, gasPayment = [coinObjectId g]\<rparr>
          = Inr r
        \<and> status r = ''success''
        \<and> find (\<lambda>ev. includes_str (event_type ev) (moduleName this @ ''::PoolCreated''))
             (events r) = Some ev
        \<and> poolCache this (pool_id ev) = None
        \<and> getObject env (provider this) (pool_id ev) = Inl e"
  from 2 have "getPoolDetails env this (pool_id ev) =
        (Inl (Error (''Failed to fetch pool details: '' @ message e)), this)"
    by (simp add: getPoolDetails_miss getPoolDetails_fetch_getObject_fails)
  with 1 2 show "createPool env this a b f s p =
          (Inr (Failure (''Failed to fetch pool details: '' @ message e)), this)"
    by (simp add: createPool_def createPool_try_def Let_def)
qed

text \<open>
  Claim C8 as stated fails. A signer whose wallet throws \<^verbatim>\<open>wallet rejected\<close> makes
  \<^verbatim>\<open>createPool\<close> return an object, where the claim has the error surface and no normal
  return; and a network that throws \<^verbatim>\<open>rpc unavailable\<close> makes \<^verbatim>\<open>getPoolDetails\<close> throw
  an error with another message, where the claim has the error surface unchanged.
\<close>

theorem createPool_returns_after_failure:
  "fst (createPool sample_env sample_this ''0x2::sui::SUI'' ''0x3::usdc::USDC'' None
          rejecting_signer None) = Inr (Failure ''wallet rejected'')
   \<and> fst (getPoolDetails offline_env sample_this ''0xpool1'')
       = Inl (Error ''Failed to fetch pool details: rpc unavailable'')"
  by code_simp

text \<open>
  The theorem at four failures: the fetch of a pool, the request for the gas coins, the
  submission, and the fetch of the pool just created.
\<close>

theorem collaborator_errors_witness:
  "getPoolDetails offline_env sample_this ''0xpool1''
     = (Inl (Error (''Failed to fetch pool details: '' @ message (Error ''rpc unavailable''))),
        sample_this)
   \<and> createPool no_coins_env sample_this ''0x3::usdc::USDC'' ''0x2::sui::SUI'' None
        sample_signer None = (Inr (Failure (message (Error ''rate limited''))), sample_this)
   \<and> createPool sample_env sample_this ''0x3::usdc::USDC'' ''0x2::sui::SUI'' None
        rejecting_signer None = (Inr (Failure (message (Error ''wallet rejected''))), sample_this)
   \<and> createPool offline_env sample_this ''0x3::usdc::USDC'' ''0x2::sui::SUI'' None
        sample_signer None
      = (Inr (Failure (''Failed to fetch pool details: '' @ message (Error ''rpc unavailable''))),
         sample_this)"
proof -
  let ?q = "\<lparr>owner = getAddress sample_signer, coinType = None, limit = Some 1\<rparr>"
  let ?tier = "Own \<lparr>fee = Num (to_double (3 / 1000)), tickSpacing = Num 60\<rparr>"
  let ?sp = "''79228162514264337593543950336''"
  let ?g = "\<lparr>coinObjectId = ''0xc01''\<rparr>"
  let ?r = "\<lparr>digest = ''D1'', status = ''success'', status_error = None,
             events = sample_events\<rparr>"
  let ?ev = "\<lparr>event_type = ''0x1::liquidity_pool::PoolCreated'', pool_id = ''0xpool1''\<rparr>"
  have miss: "poolCache sample_this ''0xpool1'' = None"
    by (simp add: sample_this_fields)
  have off: "getObject offline_env (provider sample_this) ''0xpool1'' = Inl (Error ''rpc unavailable'')"
    by (simp add: offline_env_def)
  have st: "sortTokens no_coins_env ''0x3::usdc::USDC'' ''0x2::sui::SUI''
      = Inr (''0x2::sui::SUI'', ''0x3::usdc::USDC'')"
    "sortTokens sample_env ''0x3::usdc::USDC'' ''0x2::sui::SUI''
      = Inr (''0x2::sui::SUI'', ''0x3::usdc::USDC'')"
    "sortTokens offline_env ''0x3::usdc::USDC'' ''0x2::sui::SUI''
      = Inr (''0x2::sui::SUI'', ''0x3::usdc::USDC'')"
    using sample_sortTokens by (simp_all add: no_coins_env_def offline_env_def)
  have tier: "?tier \<noteq> Undefined" by simp
  have pr: "priceToSqrtPriceX96 no_coins_env (case None of None \<Rightarrow> ''1.0'' | Some x \<Rightarrow> x) = Inr ?sp"
    "priceToSqrtPriceX96 sample_env (case None of None \<Rightarrow> ''1.0'' | Some x \<Rightarrow> x) = Inr ?sp"
    "priceToSqrtPriceX96 offline_env (case None of None \<Rightarrow> ''1.0'' | Some x \<Rightarrow> x) = Inr ?sp"
    by (simp_all add: no_coins_env_def offline_env_def sample_env_def)
  have coins_fail: "getCoins no_coins_env (provider sample_this) ?q = Inl (Error ''rate limited'')"
    by (simp add: no_coins_env_def)
  have coins: "getCoins sample_env (provider sample_this)
        \<lparr>owner = getAddress rejecting_signer, coinType = None, limit = Some 1\<rparr> = Inr (?g # [])"
    "getCoins offline_env (provider sample_this) ?q = Inr (?g # [])"
    by (simp_all add: sample_env_def offline_env_def)
  have rej: "signAndExecuteTransactionBlock rejecting_signer
       \<lparr>moveCall = create_pool_call sample_this ''0x2::sui::SUI'' ''0x3::usdc::USDC'' ?tier ?sp,
        gasPayment = [coinObjectId ?g]\<rparr> = Inl (Error ''wallet rejected'')"
    by (simp add: rejecting_signer_def)
  have ok: "signAndExecuteTransactionBlock sample_signer
       \<lparr>moveCall = create_pool_call sample_this ''0x2::sui::SUI'' ''0x3::usdc::USDC'' ?tier ?sp,
        gasPayment = [coinObjectId ?g]\<rparr> = Inr ?r"
    "status ?r = ''success''"
    by (simp_all add: sample_signer_def)
  have found: "find (\<lambda>ev. includes_str (event_type ev) (moduleName sample_this @ ''::PoolCreated''))
       (events ?r) = Some ?ev"
    by code_simp
  have off': "poolCache sample_this (pool_id ?ev) = None"
    "getObject offline_env (provider sample_this) (pool_id ?ev) = Inl (Error ''rpc unavailable'')"
    by (simp_all add: sample_this_fields offline_env_def)
  from collaborator_errors
         [where this = sample_this and poolId = "''0xpool1''" and env = offline_env
            and e = "Error ''rpc unavailable''"] miss off
  have 1: "getPoolDetails offline_env sample_this ''0xpool1''
     = (Inl (Error (''Failed to fetch pool details: '' @ message (Error ''rpc unavailable''))),
        sample_this)"
    by blast
  from collaborator_errors
         [where this = sample_this and env = no_coins_env and e = "Error ''rate limited''"
            and a = "''0x3::usdc::USDC''" and b = "''0x2::sui::SUI''" and f = None
            and s = sample_signer and p = None and tx = "''0x2::sui::SUI''"
            and ty = "''0x3::usdc::USDC''" and tier = ?tier and sp = ?sp]
       st(1) sample_tier tier pr(1) coins_fail
  have 2: "createPool no_coins_env sample_this ''0x3::usdc::USDC'' ''0x2::sui::SUI'' None
        sample_signer None = (Inr (Failure (message (Error ''rate limited''))), sample_this)"
    by blast
  from collaborator_errors
         [where this = sample_this and env = sample_env and e = "Error ''wallet rejected''"
            and a = "''0x3::usdc::USDC''" and b = "''0x2::sui::SUI''" and f = None
            and s = rejecting_signer and p = None and tx = "''0x2::sui::SUI''"
            and ty = "''0x3::usdc::USDC''" and tier = ?tier and sp = ?sp and g = ?g and gs = "[]"]
       st(2) sample_tier tier pr(2) coins(1) rej
  have 3: "createPool sample_env sample_this ''0x3::usdc::USDC'' ''0x2::sui::SUI'' None
        rejecting_signer None = (Inr (Failure (message (Error ''wallet rejected''))), sample_this)"
    by blast
  from collaborator_errors
         [where this = sample_this and env = offline_env and e = "Error ''rpc unavailable''"
            and a = "''0x3::usdc::USDC''" and b = "''0x2::sui::SUI''" and f = None
            and s = sample_signer and p = None and tx = "''0x2::sui::SUI''"
            and ty = "''0x3::usdc::USDC''" and tier = ?tier and sp = ?sp and g = ?g and gs = "[]"
            and r = ?r and ev = ?ev]
       st(3) sample_tier tier pr(3) coins(2) ok found off'
  have 4: "createPool offline_env sample_this ''0x3::usdc::USDC'' ''0x2::sui::SUI'' None
        sample_signer None
      = (Inr (Failure (''Failed to fetch pool details: '' @ message (Error ''rpc unavailable''))),
         sample_this)"
    by blast
  from 1 2 3 4 show ?thesis by blast
qed

section \<open>Properties of addLiquidity\<close>

lemma addLiquidity_try_unfold:
  "addLiquidity_try env this poolId lo hi ax ay s tol =
     (case getPoolDetails env this poolId of
        (Inl e, this') \<Rightarrow> (Inl e, this')
      | (Inr p, this') \<Rightarrow>
          (case getCoins env (provider this')
                  \<lparr>owner = getAddress s, coinType = Some (tokenX p), limit = None\<rparr> of
             Inl e \<Rightarrow> (Inl e, this')
           | Inr coinsX \<Rightarrow>
          (case getCoins env (provider this')
                  \<lparr>owner = getAddress s, coinType = Some (tokenY p), limit = None\<rparr> of
             Inl e \<Rightarrow> (Inl e, this')
           | Inr coinsY \<Rightarrow>
          (case (coinsX, coinsY) of
             (cx # _, cy # _) \<Rightarrow>
               (Inr \<lparr>pool = p,
                     coinX = coinObjectId cx,
                     coinY = coinObjectId cy,
                     amount0Min = Math_floor (js_mul ax (js_sub (Num 1)
                        (case tol of None \<Rightarrow> Num (to_double (1 / 100)) | Some t \<Rightarrow> t))),
                     amount1Min = Math_floor (js_mul ay (js_sub (Num 1)
                        (case tol of None \<Rightarrow> Num (to_double (1 / 100)) | Some t \<Rightarrow> t))),
                     call_target = packageId this' @ ''::'' @ moduleName this' @ ''::add_liquidity'',
                     call_arguments =
                       [Object poolId, Pure lo, Pure hi, Object (coinObjectId cx)]\<rparr>,
                this')
           | _ \<Rightarrow> (Inl (Error ''Insufficient coins for liquidity provision''), this')))))"
  by (simp add: addLiquidity_try_def Let_def)

lemma addLiquidity_try_state:
  "snd (addLiquidity_try env this poolId lo hi ax ay s tol) = snd (getPoolDetails env this poolId)"
  by (simp add: addLiquidity_try_unfold split: prod.splits sum.splits list.splits)

lemma addLiquidity_try_pool:
  "fst (addLiquidity_try env this poolId lo hi ax ay s tol) = Inr st \<Longrightarrow>
   fst (getPoolDetails env this poolId) = Inr (pool st)"
  by (auto simp: addLiquidity_try_unfold split: prod.splits sum.splits list.splits)

lemma getPoolDetails_fetch_sample_coins:
  "getPoolDetails_fetch no_coins_env this poolId = Inr (sample_details poolId)"
  "getPoolDetails_fetch offline_env this poolId = Inl (Error ''rpc unavailable'')"
  by (simp_all add: getPoolDetails_fetch_def no_coins_env_def offline_env_def sample_env_def
      sample_response_def sample_fields_def sample_details_def parseInt_samples
      match_pool_type_sample)

text \<open>
  Claim C1 as amended: \<^verbatim>\<open>addLiquidity\<close> takes the pool from \<^verbatim>\<open>getPoolDetails\<close>, and up to
  the point where the source file ends the instance afterwards is the one
  \<^verbatim>\<open>getPoolDetails\<close> leaves. When the cache holds an entry for the pool id, the
  operation works on that entry and the external source is not consulted: the outcome
  is the same whatever the source would answer, and the instance is unchanged. When the
  cache holds no entry, the pool is fetched from the source. If the fetch fails,
  \<^verbatim>\<open>addLiquidity\<close> throws the error of \<^verbatim>\<open>getPoolDetails\<close> and the instance is unchanged.
  If the fetch succeeds, the fetched pool is stored in the cache, also when a later
  step throws, nothing else of the instance changes, and the fetched pool is the one
  the operation works on.
\<close>

theorem addLiquidity_pool_source:
  "snd (addLiquidity_try env this poolId lo hi ax ay s tol) = snd (getPoolDetails env this poolId)
   \<and> (\<forall>d. poolCache this poolId = Some d \<longrightarrow>
      addLiquidity_try (env\<lparr>getObject := other\<rparr>) this poolId lo hi ax ay s tol
        = addLiquidity_try env this poolId lo hi ax ay s tol
      \<and> snd (addLiquidity_try env this poolId lo hi ax ay s tol) = this
      \<and> (\<forall>st. fst (addLiquidity_try env this poolId lo hi ax ay s tol) = Inr st \<longrightarrow> pool st = d))
   \<and> (poolCache this poolId = None \<longrightarrow>
      (\<forall>e. getPoolDetails_fetch env this poolId = Inl e \<longrightarrow>
         addLiquidity_try env this poolId lo hi ax ay s tol
           = (Inl (Error (''Failed to fetch pool details: '' @ message e)), this))
      \<and> (\<forall>d. getPoolDetails_fetch env this poolId = Inr d \<longrightarrow>
         snd (addLiquidity_try env this poolId lo hi ax ay s tol)
           = this\<lparr>poolCache := (poolCache this)(poolId \<mapsto> d)\<rparr>
         \<and> (\<forall>st. fst (addLiquidity_try env this poolId lo hi ax ay s tol) = Inr st \<longrightarrow>
               pool st = d)))"
proof (intro conjI allI impI)
  show "snd (addLiquidity_try env this poolId lo hi ax ay s tol)
      = snd (getPoolDetails env this poolId)"
    by (rule addLiquidity_try_state)
next
  fix d
  assume hit: "poolCache this poolId = Some d"
  then have g: "getPoolDetails env this poolId = (Inr d, this)"
    "getPoolDetails (env\<lparr>getObject := other\<rparr>) this poolId = (Inr d, this)"
    by (simp_all add: getPoolDetails_hit)
  then show "addLiquidity_try (env\<lparr>getObject := other\<rparr>) this poolId lo hi ax ay s tol
        = addLiquidity_try env this poolId lo hi ax ay s tol"
    by (simp add: addLiquidity_try_unfold cong: sum.case_cong)
  from g show "snd (addLiquidity_try env this poolId lo hi ax ay s tol) = this"
    by (simp add: addLiquidity_try_state)
  fix st
  assume "fst (addLiquidity_try env this poolId lo hi ax ay s tol) = Inr st"
  from addLiquidity_try_pool[OF this] g show "pool st = d" by simp
next
  fix e
  assume "poolCache this poolId = None" and "getPoolDetails_fetch env this poolId = Inl e"
  then show "addLiquidity_try env this poolId lo hi ax ay s tol
           = (Inl (Error (''Failed to fetch pool details: '' @ message e)), this)"
    by (simp add: addLiquidity_try_unfold getPoolDetails_miss)
next
  fix d
  assume miss: "poolCache this poolId = None"
    and f: "getPoolDetails_fetch env this poolId = Inr d"
  then have g: "getPoolDetails env this poolId
      = (Inr d, this\<lparr>poolCache := (poolCache this)(poolId \<mapsto> d)\<rparr>)"
    by (simp add: getPoolDetails_miss)
  then show "snd (addLiquidity_try env this poolId lo hi ax ay s tol)
           = this\<lparr>poolCache := (poolCache this)(poolId \<mapsto> d)\<rparr>"
    by (simp add: addLiquidity_try_state)
  fix st
  assume "fst (addLiquidity_try env this poolId lo hi ax ay s tol) = Inr st"
  from addLiquidity_try_pool[OF this] g show "pool st = d" by simp
qed

text \<open>
  Claim C1 as stated fails. The cache holds an entry for the pool with liquidity
  \<^verbatim>\<open>5000\<close> while the network answers liquidity \<^verbatim>\<open>0\<close>; \<^verbatim>\<open>addLiquidity\<close> works on the
  cached entry, and does so even when the network cannot be reached.
\<close>

theorem addLiquidity_uses_cached_pool:
  "map_sum id pool (fst (addLiquidity_try sample_env stale_this ''0xpool1'' (JNumber (Num (- 600)))
      (JNumber (Num 600)) (Num 1000) (Num 1000) sample_signer None)) = Inr stale_details
   \<and> getPoolDetails_fetch sample_env stale_this ''0xpool1'' = Inr (sample_details ''0xpool1'')
   \<and> liquidity stale_details = ''5000'' \<and> liquidity (sample_details ''0xpool1'') = ''0''
   \<and> map_sum id pool (fst (addLiquidity_try offline_env stale_this ''0xpool1''
      (JNumber (Num (- 600))) (JNumber (Num 600)) (Num 1000) (Num 1000) sample_signer None))
      = Inr stale_details"
  by code_simp

text \<open>
  The theorem at an instance whose cache holds the pool, with a network that cannot be
  reached in place of the sample network, and at an instance whose cache is empty:
  with the sample network, with a network that cannot be reached, and with a network
  that answers for the pool and then refuses to list the coins.
\<close>

theorem addLiquidity_pool_source_witness:
  "poolCache stale_this ''0xpool1'' = Some stale_details
   \<and> addLiquidity_try (sample_env\<lparr>getObject := (\<lambda>c i. Inl (Error ''rpc unavailable''))\<rparr>)
        stale_this ''0xpool1'' (JNumber (Num (- 600))) (JNumber (Num 600)) (Num 1000) (Num 1000)
        sample_signer None
      = addLiquidity_try sample_env stale_this ''0xpool1'' (JNumber (Num (- 600)))
          (JNumber (Num 600)) (Num 1000) (Num 1000) sample_signer None
   \<and> snd (addLiquidity_try sample_env stale_this ''0xpool1'' (JNumber (Num (- 600)))
          (JNumber (Num 600)) (Num 1000) (Num 1000) sample_signer None) = stale_this
   \<and> poolCache sample_this ''0xpool1'' = None
   \<and> snd (addLiquidity_try sample_env sample_this ''0xpool1'' (JNumber (Num (- 600)))
          (JNumber (Num 600)) (Num 1000) (Num 1000) sample_signer None)
      = sample_this\<lparr>poolCache := (poolCache sample_this)(''0xpool1'' \<mapsto> sample_details ''0xpool1'')\<rparr>
   \<and> addLiquidity_try offline_env sample_this ''0xpool1'' (JNumber (Num (- 600)))
          (JNumber (Num 600)) (Num 1000) (Num 1000) sample_signer None
      = (Inl (Error (''Failed to fetch pool details: '' @ message (Error ''rpc unavailable''))),
         sample_this)
   \<and> fst (addLiquidity_try no_coins_env sample_this ''0xpool1'' (JNumber (Num (- 600)))
          (JNumber (Num 600)) (Num 1000) (Num 1000) sample_signer None)
      = Inl (Error ''rate limited'')
   \<and> snd (addLiquidity_try no_coins_env sample_this ''0xpool1'' (JNumber (Num (- 600)))
          (JNumber (Num 600)) (Num 1000) (Num 1000) sample_signer None)
      = sample_this\<lparr>poolCache := (poolCache sample_this)(''0xpool1'' \<mapsto> sample_details ''0xpool1'')\<rparr>"
proof -
  have hit: "poolCache stale_this ''0xpool1'' = Some stale_details"
    by (simp add: stale_this_def)
  have miss: "poolCache sample_this ''0xpool1'' = None"
    by (simp add: sample_this_fields)
  have thrown: "fst (addLiquidity_try no_coins_env sample_this ''0xpool1'' (JNumber (Num (- 600)))
          (JNumber (Num 600)) (Num 1000) (Num 1000) sample_signer None)
      = Inl (Error ''rate limited'')"
    by code_simp
  from addLiquidity_pool_source
         [where this = stale_this and poolId = "''0xpool1''" and env = sample_env
            and other = "\<lambda>c i. Inl (Error ''rpc unavailable'')"
            and lo = "JNumber (Num (- 600))" and hi = "JNumber (Num 600)" and ax = "Num 1000"
            and ay = "Num 1000" and s = sample_signer and tol = None] hit
  have 1: "addLiquidity_try (sample_env\<lparr>getObject := (\<lambda>c i. Inl (Error ''rpc unavailable''))\<rparr>)
        stale_this ''0xpool1'' (JNumber (Num (- 600))) (JNumber (Num 600)) (Num 1000) (Num 1000)
        sample_signer None
      = addLiquidity_try sample_env stale_this ''0xpool1'' (JNumber (Num (- 600)))
          (JNumber (Num 600)) (Num 1000) (Num 1000) sample_signer None"
    and 2: "snd (addLiquidity_try sample_env stale_this ''0xpool1'' (JNumber (Num (- 600)))
          (JNumber (Num 600)) (Num 1000) (Num 1000) sample_signer None) = stale_this"
    by blast+
  from addLiquidity_pool_source
         [where this = sample_this and poolId = "''0xpool1''" and env = sample_env
            and lo = "JNumber (Num (- 600))" and hi = "JNumber (Num 600)" and ax = "Num 1000"
            and ay = "Num 1000" and s = sample_signer and tol = None]
       miss sample_fetch [of sample_this "''0xpool1''"]
  have 3: "snd (addLiquidity_try sample_env sample_this ''0xpool1'' (JNumber (Num (- 600)))
          (JNumber (Num 600)) (Num 1000) (Num 1000) sample_signer None)
      = sample_this\<lparr>poolCache := (poolCache sample_this)(''0xpool1'' \<mapsto> sample_details ''0xpool1'')\<rparr>"
    by blast
  from addLiquidity_pool_source
         [where this = sample_this and poolId = "''0xpool1''" and env = offline_env
            and lo = "JNumber (Num (- 600))" and hi = "JNumber (Num 600)" and ax = "Num 1000"
            and ay = "Num 1000" and s = sample_signer and tol = None]
       miss getPoolDetails_fetch_sample_coins(2) [of sample_this "''0xpool1''"]
  have 4: "addLiquidity_try offline_env sample_this ''0xpool1'' (JNumber (Num (- 600)))
          (JNumber (Num 600)) (Num 1000) (Num 1000) sample_signer None
      = (Inl (Error (''Failed to fetch pool details: '' @ message (Error ''rpc unavailable''))),
         sample_this)"
    by blast
  from addLiquidity_pool_source
         [where this = sample_this and poolId = "''0xpool1''" and env = no_coins_env
            and lo = "JNumber (Num (- 600))" and hi = "JNumber (Num 600)" and ax = "Num 1000"
            and ay = "Num 1000" and s = sample_signer and tol = None]
       miss getPoolDetails_fetch_sample_coins(1) [of sample_this "''0xpool1''"]
  have 5: "snd (addLiquidity_try no_coins_env sample_this ''0xpool1'' (JNumber (Num (- 600)))
          (JNumber (Num 600)) (Num 1000) (Num 1000) sample_signer None)
      = sample_this\<lparr>poolCache := (poolCache sample_this)(''0xpool1'' \<mapsto> sample_details ''0xpool1'')\<rparr>"
    by blast
  from hit miss thrown 1 2 3 4 5 show ?thesis by blast
qed

section \<open>createPool with the helpers of the specification\<close>

lemma with_spec_helpers_simps:
  "sortTokens (with_spec_helpers decimal convert env) = spec_sortTokens"
  "priceToSqrtPriceX96 (with_spec_helpers decimal convert env) = spec_priceToSqrtPriceX96 decimal convert"
  "getCoins (with_spec_helpers decimal convert env) = getCoins env"
  "getObject (with_spec_helpers decimal convert env) = getObject env"
  by (simp_all add: with_spec_helpers_def)

lemma spec_sortTokens_distinct:
  "a \<noteq> b \<Longrightarrow> \<exists>x y. spec_sortTokens a b = Inr (x, y)"
  by (simp add: spec_sortTokens_def)

text \<open>
  Claim C3 as amended, for \<^verbatim>\<open>createPool\<close> with the two helpers as the specification
  describes them: for every input whose two token types are equal, \<^verbatim>\<open>createPool\<close> fails
  with \<^verbatim>\<open>InvalidTokenPair\<close>; for every input whose initial price is zero or negative,
  \<^verbatim>\<open>createPool\<close> fails, and it fails with \<^verbatim>\<open>InvalidInput\<close> when the two token types
  differ and the fee tier is found. The token pair and the fee tier are checked before
  the price is converted, so an input that fails one of these checks fails with the
  error of that check.
\<close>

theorem createPool_invalid_pair_and_price:
  "(a = b \<longrightarrow>
      createPool (with_spec_helpers decimal convert env) this a b f s p
        = (Inr (Failure (message InvalidTokenPair)), this))
   \<and> (decimal (case p of None \<Rightarrow> ''1.0'' | Some x \<Rightarrow> x) \<le> 0 \<longrightarrow>
      (\<exists>m. createPool (with_spec_helpers decimal convert env) this a b f s p
             = (Inr (Failure m), this)))
   \<and> (decimal (case p of None \<Rightarrow> ''1.0'' | Some x \<Rightarrow> x) \<le> 0 \<and> a \<noteq> b
       \<and> FEE_TIERS_get (case f of None \<Rightarrow> ''MEDIUM'' | Some x \<Rightarrow> x) \<noteq> Undefined \<longrightarrow>
      createPool (with_spec_helpers decimal convert env) this a b f s p
        = (Inr (Failure (message InvalidInput)), this))"
proof (intro conjI impI)
  assume "a = b"
  then show "createPool (with_spec_helpers decimal convert env) this a b f s p
        = (Inr (Failure (message InvalidTokenPair)), this)"
    by (simp add: createPool_def createPool_try_def with_spec_helpers_simps spec_sortTokens_def)
next
  assume neg: "decimal (case p of None \<Rightarrow> ''1.0'' | Some x \<Rightarrow> x) \<le> 0"
  show "\<exists>m. createPool (with_spec_helpers decimal convert env) this a b f s p
             = (Inr (Failure m), this)"
  proof (cases "a = b")
    case True
    then show ?thesis
      by (simp add: createPool_def createPool_try_def with_spec_helpers_simps spec_sortTokens_def)
  next
    case False
    from spec_sortTokens_distinct[OF False] obtain x y where "spec_sortTokens a b = Inr (x, y)"
      by blast
    with neg show ?thesis
      by (simp add: createPool_def createPool_try_def with_spec_helpers_simps
          spec_priceToSqrtPriceX96_def Let_def)
  qed
next
  assume h: "decimal (case p of None \<Rightarrow> ''1.0'' | Some x \<Rightarrow> x) \<le> 0 \<and> a \<noteq> b
       \<and> FEE_TIERS_get (case f of None \<Rightarrow> ''MEDIUM'' | Some x \<Rightarrow> x) \<noteq> Undefined"
  then have "a \<noteq> b" by simp
  from spec_sortTokens_distinct[OF this] obtain x y where "spec_sortTokens a b = Inr (x, y)"
    by blast
  with h show "createPool (with_spec_helpers decimal convert env) this a b f s p
        = (Inr (Failure (message InvalidInput)), this)"
    by (simp add: createPool_def createPool_try_def with_spec_helpers_simps
        spec_priceToSqrtPriceX96_def Let_def)
qed

text \<open>
  Claim C3 as stated fails: with a negative price and a fee tier that does not exist,
  \<^verbatim>\<open>createPool\<close> fails with the error of the fee tier check, not with
  \<^verbatim>\<open>InvalidInput\<close>.
\<close>

theorem createPool_invalid_fee_tier_before_price:
  "sample_decimal ''-1.0'' \<le> 0
   \<and> fst (createPool spec_env sample_this ''0x2::sui::SUI'' ''0x3::usdc::USDC'' (Some ''BOGUS'')
            sample_signer (Some ''-1.0''))
       = Inr (Failure ''Invalid fee tier: BOGUS. Must be LOW, MEDIUM, or HIGH.'')
   \<and> message InvalidInput = ''InvalidInput''"
  by code_simp

text \<open>
  The theorem at a pair of equal tokens, and at the price \<^verbatim>\<open>0\<close> with two different
  tokens and the default fee tier.
\<close>

theorem createPool_invalid_pair_and_price_witness:
  "createPool spec_env sample_this ''0x2::sui::SUI'' ''0x2::sui::SUI'' None sample_signer None
     = (Inr (Failure (message InvalidTokenPair)), sample_this)
   \<and> sample_decimal ''0'' \<le> 0
   \<and> createPool spec_env sample_this ''0x2::sui::SUI'' ''0x3::usdc::USDC'' None sample_signer
        (Some ''0'') = (Inr (Failure (message InvalidInput)), sample_this)"
proof -
  let ?conv = "\<lambda>p. Inr ''79228162514264337593543950336'' :: error + string"
  have neg: "sample_decimal (case Some ''0'' of None \<Rightarrow> ''1.0'' | Some x \<Rightarrow> x) \<le> 0"
    by (simp add: sample_decimal_def)
  have ne: "''0x2::sui::SUI'' \<noteq> ''0x3::usdc::USDC''" by simp
  have tier: "FEE_TIERS_get (case None of None \<Rightarrow> ''MEDIUM'' | Some x \<Rightarrow> x) \<noteq> Undefined"
    by (simp add: FEE_TIERS_get_def FEE_TIERS_def)
  from createPool_invalid_pair_and_price
         [where a = "''0x2::sui::SUI''" and b = "''0x2::sui::SUI''" and decimal = sample_decimal
            and convert = ?conv and env = sample_env and this = sample_this and f = None
            and s = sample_signer and p = None]
  have 1: "createPool spec_env sample_this ''0x2::sui::SUI'' ''0x2::sui::SUI'' None sample_signer None
     = (Inr (Failure (message InvalidTokenPair)), sample_this)"
    unfolding spec_env_def by blast
  from createPool_invalid_pair_and_price
         [where a = "''0x2::sui::SUI''" and b = "''0x3::usdc::USDC''" and decimal = sample_decimal
            and convert = ?conv and env = sample_env and this = sample_this and f = None
            and s = sample_signer and p = "Some ''0''"] neg ne tier
  have 2: "createPool spec_env sample_this ''0x2::sui::SUI'' ''0x3::usdc::USDC'' None sample_signer
        (Some ''0'') = (Inr (Failure (message InvalidInput)), sample_this)"
    unfolding spec_env_def by blast
  have 3: "sample_decimal ''0'' \<le> 0" by (simp add: sample_decimal_def)
  from 1 2 3 show ?thesis by blast
qed

section \<open>Fee tiers\<close>

text \<open>
  Claim C2 at the fee tier name \<^verbatim>\<open>constructor\<close>: the lookup does not fail. The name is
  a property that \<^verbatim>\<open>FEE_TIERS\<close> inherits from \<^verbatim>\<open>Object.prototype\<close>, the value is
  truthy, and \<^verbatim>\<open>createPool\<close> goes on to submit a \<^verbatim>\<open>create_pool\<close> call whose fee is
  \<^verbatim>\<open>NaN\<close> and whose tick spacing is \<^verbatim>\<open>undefined\<close>; with the sample signer, whose
  submission succeeds, it returns a success object.
\<close>

theorem createPool_inherited_fee_tier:
  "FEE_TIERS_get ''constructor'' = Inherited ''constructor''
   \<and> arguments (create_pool_call sample_this ''0x2::sui::SUI'' ''0x3::usdc::USDC''
        (FEE_TIERS_get ''constructor'') ''79228162514264337593543950336'')
      = [Object LP_REGISTRY_ID, Pure (JString ''0x2::sui::SUI''), Pure (JString ''0x3::usdc::USDC''),
         Pure (JNumber NaN), Pure JUndefined, Pure (JString ''79228162514264337593543950336'')]
   \<and> fst (createPool sample_env sample_this ''0x2::sui::SUI'' ''0x3::usdc::USDC''
            (Some ''constructor'') sample_signer None)
      = Inr (Success \<lparr>transactionDigest = ''D1'', created_poolId = ''0xpool1'',
               created_feeTier = ''constructor'', created_details = sample_details ''0xpool1''\<rparr>)"
  by code_simp

text \<open>
  For the three names of the table the fee handed to the \<^verbatim>\<open>create_pool\<close> call,
  \<^verbatim>\<open>tier.fee * 1000000\<close> in double arithmetic, is exactly 500, 3000 and 10000, and the
  tick spacing is 10, 60 and 200.
\<close>

theorem fee_tier_parameters:
  "tier_fee_ppm (FEE_TIERS_get ''LOW'') = Num 500
   \<and> tier_tickSpacing (FEE_TIERS_get ''LOW'') = JNumber (Num 10)
   \<and> tier_fee_ppm (FEE_TIERS_get ''MEDIUM'') = Num 3000
   \<and> tier_tickSpacing (FEE_TIERS_get ''MEDIUM'') = JNumber (Num 60)
   \<and> tier_fee_ppm (FEE_TIERS_get ''HIGH'') = Num 10000
   \<and> tier_tickSpacing (FEE_TIERS_get ''HIGH'') = JNumber (Num 200)"
  by code_simp

text \<open>
  A fee tier name that is neither a key of the table nor a property of
  \<^verbatim>\<open>Object.prototype\<close> makes \<^verbatim>\<open>createPool\<close> fail with the message of the fee tier
  check, once the tokens have been sorted.
\<close>

theorem createPool_unknown_fee_tier:
  "sortTokens env a b = Inr (tx, ty) \<and> n \<notin> {''LOW'', ''MEDIUM'', ''HIGH''}
     \<and> n \<notin> set Object_prototype \<longrightarrow>
   createPool env this a b (Some n) s p
     = (Inr (Failure (''Invalid fee tier: '' @ n @ ''. Must be LOW, MEDIUM, or HIGH.'')), this)"
  by (simp add: createPool_def createPool_try_def FEE_TIERS_get_def FEE_TIERS_def)

text \<open>The theorem at the name \<^verbatim>\<open>low\<close>.\<close>

theorem createPool_unknown_fee_tier_witness:
  "createPool sample_env sample_this ''0x3::usdc::USDC'' ''0x2::sui::SUI'' (Some ''low'')
      sample_signer None
     = (Inr (Failure (''Invalid fee tier: '' @ ''low'' @ ''. Must be LOW, MEDIUM, or HIGH.'')),
        sample_this)"
proof -
  have "''low'' \<notin> {''LOW'', ''MEDIUM'', ''HIGH''}" by simp
  moreover have "''low'' \<notin> set Object_prototype" by (simp add: Object_prototype_def)
  ultimately show ?thesis
    using createPool_unknown_fee_tier
            [where env = sample_env and a = "''0x3::usdc::USDC''" and b = "''0x2::sui::SUI''"
               and tx = "''0x2::sui::SUI''" and ty = "''0x3::usdc::USDC''" and n = "''low''"
               and this = sample_this and s = sample_signer and p = None] sample_sortTokens
    by blast
qed

end
